theory Spec2Isabelle
  imports Main "HOL-Library.Sublist"
begin

section \<open>JavaScript values, strings and exceptions\<close>

text \<open>
  The command-line tool is TypeScript running on Node. Strings are modelled as
  \<^typ>\<open>string\<close> (ASCII text: tokens, URLs, directory names), numbers that carry
  timestamps as \<^typ>\<open>int\<close> (milliseconds since the epoch), and a thrown value as an
  \<open>exn\<close> carrying its message. Objects whose fields are read dynamically (the
  value returned by \<open>getGitCredentials\<close> is typed \<open>any\<close>) are \<open>jsval\<close>s.
\<close>

datatype exn = JsError string | TypeError string

fun message :: "exn \<Rightarrow> string" where
  "message (JsError m) = m"
| "message (TypeError m) = m"

datatype jsval =
    JUndefined
  | JNull
  | JBool bool
  | JNum int
  | JStr string
  | JArr "jsval list"
  | JObj "(string \<times> jsval) list"

text \<open>Truthiness, as \<open>if (v)\<close>, \<open>!v\<close> and \<open>a && b\<close> test it.\<close>

fun truthy :: "jsval \<Rightarrow> bool" where
  "truthy JUndefined = False"
| "truthy JNull = False"
| "truthy (JBool b) = b"
| "truthy (JNum n) = (n \<noteq> 0)"
| "truthy (JStr s) = (s \<noteq> [])"
| "truthy (JArr xs) = True"
| "truthy (JObj fs) = True"

text \<open>
  Property access \<open>v.k\<close>: reading a property of \<open>undefined\<close> or \<open>null\<close> throws a
  TypeError; an object yields the field or \<open>undefined\<close>; the primitives have none of
  the properties read in this program.
\<close>

fun get_prop :: "jsval \<Rightarrow> string \<Rightarrow> exn + jsval" where
  "get_prop JUndefined k = Inl (TypeError (''Cannot read properties of undefined (reading '' @ k @ '')''))"
| "get_prop JNull k = Inl (TypeError (''Cannot read properties of null (reading '' @ k @ '')''))"
| "get_prop (JObj fs) k = Inr (case map_of fs k of None \<Rightarrow> JUndefined | Some v \<Rightarrow> v)"
| "get_prop v k = Inr JUndefined"

subsection \<open>String methods\<close>

text \<open>
  \<open>find_first pat s\<close> locates the leftmost occurrence of \<open>pat\<close> in \<open>s\<close> and returns
  the text before and after it. \<open>String.prototype.includes\<close>, \<open>split\<close> and \<open>replace\<close>
  (with a string pattern) are all defined by that leftmost occurrence.
\<close>

fun find_first :: "string \<Rightarrow> string \<Rightarrow> (string \<times> string) option" where
  "find_first pat [] = (if pat = [] then Some ([], []) else None)"
| "find_first pat (c # cs) =
     (if prefix pat (c # cs) then Some ([], drop (length pat) (c # cs))
      else (case find_first pat cs of
              None \<Rightarrow> None
            | Some (b, a) \<Rightarrow> Some (c # b, a)))"

definition js_includes :: "string \<Rightarrow> string \<Rightarrow> bool" where
  "js_includes s sub = (find_first sub s \<noteq> None)"

lemma find_first_decomp:
  "find_first pat s = Some (b, a) \<Longrightarrow> s = b @ pat @ a"
proof (induction s arbitrary: b a)
  case Nil
  then show ?case by (simp split: if_splits)
next
  case (Cons c cs)
  show ?case
  proof (cases "prefix pat (c # cs)")
    case True
    then obtain r where r: "c # cs = pat @ r" by (auto simp: prefix_def)
    from True Cons.prems have "b = []" "a = drop (length pat) (c # cs)" by auto
    with r show ?thesis by simp
  next
    case False
    with Cons.prems obtain b' where "find_first pat cs = Some (b', a)" "b = c # b'"
      by (auto split: option.splits)
    with Cons.IH show ?thesis by simp
  qed
qed

lemma find_first_shorter:
  "find_first pat s = Some (b, a) \<Longrightarrow> pat \<noteq> [] \<Longrightarrow> length a < length s"
  by (drule find_first_decomp) simp

text \<open>
  \<open>s.split(sep)\<close> for a string separator: the pieces between successive
  non-overlapping occurrences; an empty separator splits into single characters.
\<close>

function js_split :: "string \<Rightarrow> string \<Rightarrow> string list" where
  "js_split sep s =
     (if sep = [] then map (\<lambda>c. [c]) s
      else (case find_first sep s of
              None \<Rightarrow> [s]
            | Some (b, a) \<Rightarrow> b # js_split sep a))"
  by pat_completeness auto
termination
  by (relation "measure (\<lambda>(sep, s). length s)") (auto dest: find_first_shorter)

declare js_split.simps [simp del]

text \<open>Array indexing \<open>xs[i]\<close>: \<open>undefined\<close> (here \<open>None\<close>) out of range.\<close>

definition nth_opt :: "'a list \<Rightarrow> nat \<Rightarrow> 'a option" where
  "nth_opt xs i = (if i < length xs then Some (xs ! i) else None)"

text \<open>
  The replacement text of \<open>s.replace(pat, repl)\<close> with a string pattern: \<open>$$\<close> is a
  dollar sign, \<open>$&\<close> the matched text, \<open>$`\<close> the text before the match and \<open>$'\<close> the
  text after it; there are no capture groups, so every other \<open>$\<close> stands for itself.
\<close>

fun expand_repl :: "string \<Rightarrow> string \<Rightarrow> string \<Rightarrow> string \<Rightarrow> string" where
  "expand_repl m b a (c # d # r) =
     (if c = CHR ''$'' \<and> d = CHR ''$'' then CHR ''$'' # expand_repl m b a r
      else if c = CHR ''$'' \<and> d = CHR ''&'' then m @ expand_repl m b a r
      else if c = CHR ''$'' \<and> d = CHR 0x60 then b @ expand_repl m b a r
      else if c = CHR ''$'' \<and> d = CHR 0x27 then a @ expand_repl m b a r
      else c # expand_repl m b a (d # r))"
| "expand_repl m b a r = r"

definition js_replace :: "string \<Rightarrow> string \<Rightarrow> string \<Rightarrow> string" where
  "js_replace s pat repl =
     (case find_first pat s of
        None \<Rightarrow> s
      | Some (b, a) \<Rightarrow> b @ expand_repl pat b a repl @ a)"

text \<open>\<open>toLowerCase\<close> on ASCII text.\<close>

definition lower_char :: "char \<Rightarrow> char" where
  "lower_char c =
     (if c \<in> set ''ABCDEFGHIJKLMNOPQRSTUVWXYZ'' then char_of (of_char c + (32::nat)) else c)"

definition toLowerCase :: "string \<Rightarrow> string" where
  "toLowerCase s = map lower_char s"

text \<open>\<open>xs.join(sep)\<close>.\<close>

fun join :: "string \<Rightarrow> string list \<Rightarrow> string" where
  "join sep [] = []"
| "join sep [x] = x"
| "join sep (x # y # r) = x @ sep @ join sep (y # r)"

section \<open>Project resolution (\<open>findProject\<close>)\<close>

text \<open>
  A project record as the listing returns it; \<open>github_repo_url\<close> is absent
  (\<open>None\<close>) until the repository is provisioned.
\<close>

record project =
  p_id :: string
  p_name :: string
  p_status :: string
  github_repo_url :: "string option"

text \<open>
  The regular expression
  \<^verbatim>\<open>/^[0-9a-f]{8}-[0-9a-f]{4}-[0-9a-f]{4}-[0-9a-f]{4}-[0-9a-f]{12}$/i\<close>:
  groups of hexadecimal digits of the given lengths, separated by single dashes.
\<close>

definition is_hex :: "char \<Rightarrow> bool" where
  "is_hex c = (c \<in> set ''0123456789abcdefABCDEF'')"

fun match_groups :: "nat list \<Rightarrow> string \<Rightarrow> bool" where
  "match_groups [] s = (s = [])"
| "match_groups [n] s = (length s = n \<and> list_all is_hex s)"
| "match_groups (n # m # ns) s =
     (length (take n s) = n \<and> list_all is_hex (take n s) \<and>
      (case drop n s of
         [] \<Rightarrow> False
       | c # r \<Rightarrow> c = CHR ''-'' \<and> match_groups (m # ns) r))"

definition looks_like_id :: "string \<Rightarrow> bool" where
  "looks_like_id s = match_groups [8, 4, 4, 4, 12] s"

text \<open>
  The second strategy's test on one project:
  \<^verbatim>\<open>p.github_repo_url && remoteUrl.includes(p.github_repo_url.split('github.com/')[1])\<close>.
  When the URL does not contain \<open>github.com/\<close> the split has one element, the index
  yields \<open>undefined\<close>, and \<open>includes\<close> searches for the text \<open>undefined\<close>.
\<close>

definition url_matches :: "string \<Rightarrow> project \<Rightarrow> bool" where
  "url_matches remoteUrl p =
     (case github_repo_url p of
        None \<Rightarrow> False
      | Some u \<Rightarrow>
          u \<noteq> [] \<and>
          js_includes remoteUrl
            (case nth_opt (js_split ''github.com/'' u) 1 of
               None \<Rightarrow> ''undefined''
             | Some seg \<Rightarrow> seg))"

definition name_matches :: "string \<Rightarrow> project \<Rightarrow> bool" where
  "name_matches projectName p = (toLowerCase (p_name p) = toLowerCase projectName)"

text \<open>
  Lines 147-164 of \<open>findProject\<close>, on the listing the API returned. \<open>remoteUrl\<close> is an
  optional parameter; \<open>undefined\<close> and the empty string are both falsy.
\<close>

definition by_id :: "project list \<Rightarrow> string \<Rightarrow> project option" where
  "by_id projects projectName =
     (if looks_like_id projectName then find (\<lambda>p. p_id p = projectName) projects else None)"

definition by_url :: "project list \<Rightarrow> string option \<Rightarrow> project option" where
  "by_url projects remoteUrl =
     (case remoteUrl of
        None \<Rightarrow> None
      | Some r \<Rightarrow> if r = [] then None else find (url_matches r) projects)"

definition select_project :: "project list \<Rightarrow> string \<Rightarrow> string option \<Rightarrow> project option" where
  "select_project projects projectName remoteUrl =
     (case by_id projects projectName of
        Some p \<Rightarrow> Some p
      | None \<Rightarrow>
          (case by_url projects remoteUrl of
             Some p \<Rightarrow> Some p
           | None \<Rightarrow> find (name_matches projectName) projects))"

section \<open>Credential validity (\<open>GitClient.isTokenValid\<close>)\<close>

definition bufferMs :: int where
  "bufferMs = 5 * 60 * 1000"

text \<open>
  \<open>tokenExpiry\<close> is \<open>number | null\<close>; \<open>!this.tokenExpiry\<close> holds for \<open>null\<close> and for
  \<open>0\<close>. The second argument is the reading of \<open>Date.now()\<close>.
\<close>

definition isTokenValid :: "int option \<Rightarrow> int \<Rightarrow> bool" where
  "isTokenValid tokenExpiry now =
     (case tokenExpiry of
        None \<Rightarrow> False
      | Some e \<Rightarrow> if e = 0 then False else now < e - bufferMs)"

section \<open>The world outside the process and effectful computations\<close>

text \<open>
  The collaborators the tool talks to (the git command driver, the file system, the
  remote API, the clock) are an environment of operations over a state \<open>'s\<close> the
  model knows nothing about. Every git operation may fail independently and may
  change the state either way.
\<close>

datatype git_cmd =
    Add string
  | Raw "string list"
  | Push
  | Pull "string list"
  | Stash "string list"
  | Remote "string list"
  | AddConfig string string
  | Clone string string

record git_remote =
  r_name :: string
  r_fetch :: "string option"

record status_result =
  isClean :: bool
  created :: "string list"
  modified :: "string list"
  deleted :: "string list"

record git_info =
  token :: string
  repo_url :: string
  auth_url :: string
  expires_at :: int

record token_response =
  success :: bool
  info :: "git_info option"

record push_response =
  pr_success :: bool
  warning :: "string option"

record 's env =
  e_now :: "'s \<Rightarrow> int"
  e_isGitRepository :: "'s \<Rightarrow> bool"
  e_git :: "git_cmd \<Rightarrow> 's \<Rightarrow> (exn + unit) \<times> 's"
  e_status :: "'s \<Rightarrow> (exn + status_result) \<times> 's"
  e_getRemotes :: "bool \<Rightarrow> 's \<Rightarrow> (exn + git_remote list) \<times> 's"
  e_getProjects :: "'s \<Rightarrow> (exn + project list) \<times> 's"
  e_getGitToken :: "string \<Rightarrow> 's \<Rightarrow> (exn + token_response) \<times> 's"
  e_pushProjectUpdates :: "string \<Rightarrow> jsval \<Rightarrow> bool \<Rightarrow> 's \<Rightarrow> (exn + push_response) \<times> 's"
  e_readFile :: "string \<Rightarrow> 's \<Rightarrow> exn + string"
  e_yaml_load :: "string \<Rightarrow> exn + jsval"
  e_json_parse :: "string \<Rightarrow> exn + jsval"
  e_isOngokuProject :: "'s \<Rightarrow> bool"
  e_findSchemaFile :: "'s \<Rightarrow> string"

text \<open>
  What an observer sees of a run, in order: the calls made to the collaborators, each
  with the error it threw (\<open>None\<close> when it returned), and the lines written to the
  spinner and the console.
\<close>

datatype event =
    Git git_cmd "exn option"
  | GitStatus "exn option"
  | GitGetRemotes bool "exn option"
  | ApiGetProjects "exn option"
  | ApiGetGitToken string "exn option"
  | ApiPushProjectUpdates string jsval bool "exn option"
  | ReadFile string "exn option"
  | SpinnerText string
  | SpinnerSucceed string
  | SpinnerFail string
  | SpinnerInfo string
  | ConsoleLog string
  | ConsoleError string
  | ConsoleErrorExn string exn

fun thrown :: "exn + 'a \<Rightarrow> exn option" where
  "thrown (Inl e) = Some e"
| "thrown (Inr x) = None"

text \<open>
  The state of a run: the outside world, the \<open>tokenExpiry\<close> field of the one
  \<open>GitClient\<close> the command creates, and the events so far.
\<close>

record 's world =
  ext :: 's
  tokenExpiry :: "int option"
  out :: "event list"

text \<open>
  An \<open>async\<close> function is a state transformer that either returns a value or throws.
\<close>

type_synonym ('s, 'a) js = "'s world \<Rightarrow> (exn + 'a) \<times> 's world"

definition js_return :: "'a \<Rightarrow> ('s, 'a) js" where
  "js_return x w = (Inr x, w)"

definition js_throw :: "exn \<Rightarrow> ('s, 'a) js" where
  "js_throw e w = (Inl e, w)"

definition js_bind :: "('s, 'a) js \<Rightarrow> ('a \<Rightarrow> ('s, 'b) js) \<Rightarrow> ('s, 'b) js" where
  "js_bind m f w = (case m w of (Inl e, w') \<Rightarrow> (Inl e, w') | (Inr x, w') \<Rightarrow> f x w')"

definition js_seq :: "('s, 'a) js \<Rightarrow> ('s, 'b) js \<Rightarrow> ('s, 'b) js" where
  "js_seq m n = js_bind m (\<lambda>_. n)"

definition js_try :: "('s, 'a) js \<Rightarrow> (exn \<Rightarrow> ('s, 'a) js) \<Rightarrow> ('s, 'a) js" where
  "js_try m h w = (case m w of (Inl e, w') \<Rightarrow> h e w' | (Inr x, w') \<Rightarrow> (Inr x, w'))"

definition js_lift :: "exn + 'a \<Rightarrow> ('s, 'a) js" where
  "js_lift r w = (r, w)"

fun do_all :: "('s, unit) js list \<Rightarrow> ('s, unit) js" where
  "do_all [] = js_return ()"
| "do_all (m # ms) = js_seq m (do_all ms)"

definition emit :: "event \<Rightarrow> ('s, unit) js" where
  "emit ev w = (Inr (), w\<lparr>out := out w @ [ev]\<rparr>)"

text \<open>Calls to the collaborators: each is recorded, then run on the outside world.\<close>

definition git :: "'s env \<Rightarrow> git_cmd \<Rightarrow> ('s, unit) js" where
  "git d c w =
     (case e_git d c (ext w) of (r, s') \<Rightarrow> (r, w\<lparr>ext := s', out := out w @ [Git c (thrown r)]\<rparr>))"

definition git_status :: "'s env \<Rightarrow> ('s, status_result) js" where
  "git_status d w =
     (case e_status d (ext w) of (r, s') \<Rightarrow> (r, w\<lparr>ext := s', out := out w @ [GitStatus (thrown r)]\<rparr>))"

definition git_getRemotes :: "'s env \<Rightarrow> bool \<Rightarrow> ('s, git_remote list) js" where
  "git_getRemotes d verbose w =
     (case e_getRemotes d verbose (ext w) of
        (r, s') \<Rightarrow> (r, w\<lparr>ext := s', out := out w @ [GitGetRemotes verbose (thrown r)]\<rparr>))"

definition api_getProjects :: "'s env \<Rightarrow> ('s, project list) js" where
  "api_getProjects d w =
     (case e_getProjects d (ext w) of
        (r, s') \<Rightarrow> (r, w\<lparr>ext := s', out := out w @ [ApiGetProjects (thrown r)]\<rparr>))"

definition api_getGitToken :: "'s env \<Rightarrow> string \<Rightarrow> ('s, token_response) js" where
  "api_getGitToken d projectId w =
     (case e_getGitToken d projectId (ext w) of
        (r, s') \<Rightarrow> (r, w\<lparr>ext := s', out := out w @ [ApiGetGitToken projectId (thrown r)]\<rparr>))"

definition api_pushProjectUpdates ::
  "'s env \<Rightarrow> string \<Rightarrow> jsval \<Rightarrow> bool \<Rightarrow> ('s, push_response) js" where
  "api_pushProjectUpdates d projectId schema skipGitCommit w =
     (case e_pushProjectUpdates d projectId schema skipGitCommit (ext w) of
        (r, s') \<Rightarrow>
          (r, w\<lparr>ext := s', out := out w @ [ApiPushProjectUpdates projectId schema skipGitCommit (thrown r)]\<rparr>))"

definition readFileSync :: "'s env \<Rightarrow> string \<Rightarrow> ('s, string) js" where
  "readFileSync d path w =
     (e_readFile d path (ext w),
      w\<lparr>out := out w @ [ReadFile path (thrown (e_readFile d path (ext w)))]\<rparr>)"

section \<open>The git engine (\<open>GitClient\<close>)\<close>

text \<open>
  \<open>isGitRepository\<close> tests for the \<open>.git\<close> directory inside a \<open>try\<close> that returns
  \<open>false\<close>; the test itself does not throw.
\<close>

definition isGitRepository :: "'s env \<Rightarrow> ('s, bool) js" where
  "isGitRepository d w = (Inr (e_isGitRepository d (ext w)), w)"

text \<open>\<open>getStatus\<close> logs and rethrows.\<close>

definition getStatus :: "'s env \<Rightarrow> ('s, status_result) js" where
  "getStatus d =
     js_try (git_status d)
       (\<lambda>error. js_seq (emit (ConsoleErrorExn ''Error getting Git status:'' error))
                       (js_throw error))"

text \<open>\<open>getRemotes\<close> logs and returns the empty list.\<close>

definition getRemotes :: "'s env \<Rightarrow> bool \<Rightarrow> ('s, git_remote list) js" where
  "getRemotes d verbose =
     js_try (git_getRemotes d verbose)
       (\<lambda>error. js_seq (emit (ConsoleErrorExn ''Error getting Git remotes:'' error))
                       (js_return []))"

definition clone :: "'s env \<Rightarrow> string \<Rightarrow> string \<Rightarrow> ('s, bool) js" where
  "clone d repoUrl destination =
     js_try
       (js_seq (git d (Clone repoUrl destination))
       (js_seq (emit (SpinnerSucceed ''Repository cloned successfully''))
               (js_return True)))
       (\<lambda>error.
          js_seq (emit (SpinnerFail ''Failed to clone repository''))
         (js_seq (emit (ConsoleErrorExn ''Error details:'' error))
                 (js_return False)))"

definition pull :: "'s env \<Rightarrow> ('s, bool) js" where
  "pull d =
     js_try
       (js_bind (isGitRepository d) (\<lambda>isRepo.
          if \<not> isRepo then
            js_seq (emit (SpinnerFail ''Not a git repository'')) (js_return False)
          else
            js_seq (git d (Pull [''--no-rebase'']))
           (js_seq (emit (SpinnerSucceed ''Latest changes pulled successfully''))
                   (js_return True))))
       (\<lambda>error.
          js_seq (emit (SpinnerFail ''Failed to pull changes''))
         (js_seq (emit (ConsoleErrorExn ''Error details:'' error))
                 (js_return False)))"

text \<open>
  The conflict-recovery protocol of \<open>commitAndPush\<close> (the inner \<open>try\<close> of lines
  549-566) and its handler (lines 567-576), which pops the stash, ignores a failure of
  that, and rethrows the error of the first push.
\<close>

definition recovery :: "'s env \<Rightarrow> ('s, unit) js" where
  "recovery d =
     do_all
       [git d (Stash []),
        git d (Pull [''--ff-only'']),
        git d (Stash [''pop'']),
        git d (Add ''.''),
        git d (Raw [''commit'', ''-m'', ''Update from Ongoku CLI'', ''--no-gpg-sign'']),
        git d Push]"

definition push_with_recovery :: "'s env \<Rightarrow> ('s, unit) js" where
  "push_with_recovery d =
     js_try (git d Push)
       (\<lambda>pushError.
          js_seq (emit (ConsoleLog ''Push failed, trying to pull changes first...''))
            (js_try (recovery d)
               (\<lambda>pullError.
                  js_seq (js_try (git d (Stash [''pop''])) (\<lambda>stashError. js_return ()))
                         (js_throw pushError))))"

definition commitAndPush :: "'s env \<Rightarrow> string \<Rightarrow> ('s, bool) js" where
  "commitAndPush d message' =
     js_try
       (js_bind (isGitRepository d) (\<lambda>isRepo.
          if \<not> isRepo then
            js_seq (emit (SpinnerFail ''Not a git repository'')) (js_return False)
          else
            js_bind (git_status d) (\<lambda>status.
              if isClean status then
                js_seq (emit (SpinnerInfo ''No changes to commit'')) (js_return True)
              else
                js_seq (git d (Add ''.''))
               (js_seq (git d (Raw [''commit'', ''-m'', message', ''--no-gpg-sign'']))
               (js_seq (push_with_recovery d)
               (js_seq (emit (SpinnerSucceed ''Changes committed and pushed successfully''))
                       (js_return True)))))))
       (\<lambda>error.
          js_seq (emit (SpinnerFail ''Failed to commit and push changes''))
         (js_seq (emit (ConsoleErrorExn ''Error details:'' error))
                 (js_return False)))"

text \<open>
  \<open>configureWithToken(token, repoUrl, expiresAt?)\<close>. The owner and name split from the
  URL are computed and never used. \<open>expiresAt\<close> is stored when truthy, otherwise one
  hour from now.
\<close>

definition set_tokenExpiry :: "'s env \<Rightarrow> int option \<Rightarrow> ('s, unit) js" where
  "set_tokenExpiry d expiresAt w =
     (Inr (),
      w\<lparr>tokenExpiry :=
           (case expiresAt of
              None \<Rightarrow> Some (e_now d (ext w) + 3600 * 1000)
            | Some e \<Rightarrow> if e \<noteq> 0 then Some e else Some (e_now d (ext w) + 3600 * 1000))\<rparr>)"

definition configureWithToken ::
  "'s env \<Rightarrow> string \<Rightarrow> string \<Rightarrow> int option \<Rightarrow> ('s, bool) js" where
  "configureWithToken d token' repoUrl expiresAt =
     js_try
       (js_seq (git d (Remote [''set-url'', ''origin'',
                  js_replace repoUrl ''https://'' (''https://'' @ token' @ ''@'')]))
       (js_seq (git d (AddConfig ''credential.helper'' ''cache --timeout=3600''))
       (js_seq (set_tokenExpiry d expiresAt)
       (js_bind (git_getRemotes d True) (\<lambda>remotes.
          case find (\<lambda>remote. r_name remote = ''origin'') remotes of
            None \<Rightarrow>
              js_seq (emit (ConsoleError ''Failed to configure origin remote''))
                     (js_return False)
          | Some originRemote \<Rightarrow> js_return True)))))
       (\<lambda>error.
          js_seq (emit (ConsoleErrorExn ''Error configuring git with token:'' error))
                 (js_return False))"

definition tokenValid :: "'s env \<Rightarrow> 's world \<Rightarrow> bool" where
  "tokenValid d w = isTokenValid (tokenExpiry w) (e_now d (ext w))"

section \<open>Helpers shared by the commands (\<open>utils/common.ts\<close>)\<close>

text \<open>
  Every caller passes a spinner, so the \<open>if (spinner)\<close> tests are taken. Reading the
  outside world without changing it:
\<close>

definition ask :: "('s \<Rightarrow> 'a) \<Rightarrow> ('s, 'a) js" where
  "ask f w = (Inr (f (ext w)), w)"

definition getProjectIdentifiers :: "'s env \<Rightarrow> string \<Rightarrow> ('s, string \<times> string) js" where
  "getProjectIdentifiers d projectDirName =
     js_bind
       (js_try
          (js_bind (getRemotes d True) (\<lambda>remotes.
             case find (\<lambda>remote. r_name remote = ''origin'') remotes of
               None \<Rightarrow> js_return []
             | Some originRemote \<Rightarrow>
                 (case r_fetch originRemote of
                    None \<Rightarrow> js_return []
                  | Some fetch \<Rightarrow>
                      if fetch = [] then js_return []
                      else js_seq (emit (SpinnerText (''Found remote: '' @ fetch)))
                                  (js_return fetch))))
          (\<lambda>error. js_return []))
       (\<lambda>remoteUrl.
          js_return
            (if prefix ''project-'' projectDirName then drop 8 projectDirName
             else projectDirName,
             remoteUrl))"

definition project_line :: "project \<Rightarrow> string" where
  "project_line p =
     ''  - '' @ p_name p @ '' ('' @ p_id p @ '')'' @
     (case github_repo_url p of
        None \<Rightarrow> []
      | Some u \<Rightarrow> if u = [] then [] else '' - '' @ u)"

definition findProject ::
  "'s env \<Rightarrow> string \<Rightarrow> string option \<Rightarrow> ('s, project option) js" where
  "findProject d projectName remoteUrl =
     js_try
       (js_seq (emit (SpinnerText ''Fetching projects...''))
       (js_bind (api_getProjects d) (\<lambda>projects.
          case select_project projects projectName remoteUrl of
            Some p \<Rightarrow> js_return (Some p)
          | None \<Rightarrow>
              js_seq (emit (SpinnerFail
                        (''Could not identify the project '' @ [CHR 0x22] @ projectName @ [CHR 0x22])))
             (js_seq (emit (ConsoleLog ''Available projects:''))
             (js_seq (do_all (map (\<lambda>p. emit (ConsoleLog (project_line p))) projects))
                     (js_return None))))))
       (\<lambda>error.
          js_seq (emit (SpinnerFail ''Failed to fetch projects:''))
         (js_seq (emit (ConsoleError (message error)))
         (js_seq (emit (ConsoleLog ''Ensure the API URL is correct with: `ongoku config get apiUrl`''))
                 (js_return None))))"

text \<open>
  \<open>getGitCredentials\<close> returns one of three shapes: the literal
  \<^verbatim>\<open>{ success: true, valid: true, reused: true }\<close> when the cached token is still
  valid, \<open>tokenResponse.git_info\<close> itself (an object with the fields \<open>token\<close>,
  \<open>repo_url\<close>, \<open>auth_url\<close>, \<open>expires_at\<close>) when a token was issued, and \<open>null\<close>.
\<close>

definition reused_credentials :: jsval where
  "reused_credentials =
     JObj [(''success'', JBool True), (''valid'', JBool True), (''reused'', JBool True)]"

definition js_of_git_info :: "git_info \<Rightarrow> jsval" where
  "js_of_git_info gi =
     JObj [(''token'', JStr (token gi)), (''repo_url'', JStr (repo_url gi)),
           (''auth_url'', JStr (auth_url gi)), (''expires_at'', JNum (expires_at gi))]"

definition getGitCredentials :: "'s env \<Rightarrow> string \<Rightarrow> bool \<Rightarrow> ('s, jsval) js" where
  "getGitCredentials d projectId withGit =
     js_try
       (\<lambda>w.
          if withGit \<and> tokenValid d w then
            js_seq (emit (SpinnerText ''Using existing Git credentials...''))
                   (js_return reused_credentials) w
          else
            js_seq (emit (SpinnerText ''Generating Git credentials...''))
           (js_bind (api_getGitToken d projectId) (\<lambda>tokenResponse.
              case info tokenResponse of
                None \<Rightarrow>
                  js_seq (emit (SpinnerFail ''Failed to generate Git credentials.''))
                 (js_seq (emit (ConsoleError ''API Response:''))
                         (js_return JNull))
              | Some gi \<Rightarrow>
                  if \<not> success tokenResponse then
                    js_seq (emit (SpinnerFail ''Failed to generate Git credentials.''))
                   (js_seq (emit (ConsoleError ''API Response:''))
                           (js_return JNull))
                  else js_return (js_of_git_info gi))) w)
       (\<lambda>error.
          js_seq (emit (SpinnerFail ''Failed to generate Git credentials:''))
         (js_seq (emit (ConsoleError (message error)))
                 (js_return JNull)))"

datatype action_result = Null | Value bool

definition withErrorHandling ::
  "('s, action_result) js \<Rightarrow> string \<Rightarrow> ('s, action_result) js" where
  "withErrorHandling fn errorMessage =
     js_try fn
       (\<lambda>error.
          js_seq (emit (SpinnerFail errorMessage))
         (js_seq (emit (ConsoleError (message error)))
                 (js_return Null)))"

section \<open>The push command (\<open>commands/push.ts\<close>)\<close>

record push_options =
  opt_message :: "string option"
  schemaOnly :: bool
  codeOnly :: bool

text \<open>Lines 77-87: YAML first, JSON when YAML throws, an \<open>Error\<close> when both throw.\<close>

definition decodeSchema :: "'s env \<Rightarrow> string \<Rightarrow> exn + jsval" where
  "decodeSchema d schemaContent =
     (case e_yaml_load d schemaContent of
        Inr schema \<Rightarrow> Inr schema
      | Inl yamlError \<Rightarrow>
          (case e_json_parse d schemaContent of
             Inr schema \<Rightarrow> Inr schema
           | Inl jsonError \<Rightarrow> Inl (JsError ''Schema file is neither valid YAML nor JSON'')))"

text \<open>The \<open>try\<close> block of step 5 (lines 73-97).\<close>

definition sendSchema :: "'s env \<Rightarrow> push_options \<Rightarrow> string \<Rightarrow> project \<Rightarrow> ('s, unit) js" where
  "sendSchema d options schemaPath p =
     js_bind (readFileSync d schemaPath) (\<lambda>schemaContent.
     js_bind (js_lift (decodeSchema d schemaContent)) (\<lambda>schema.
     js_bind (api_pushProjectUpdates d (p_id p) schema (\<not> schemaOnly options)) (\<lambda>result.
     js_seq (emit (SpinnerSucceed ''Schema updated successfully''))
       (case warning result of
          None \<Rightarrow> js_return ()
        | Some wn \<Rightarrow>
            if wn = [] then js_return ()
            else emit (ConsoleLog (''Warning: '' @ wn))))))"

text \<open>
  Step 5 with its \<open>catch\<close> (lines 70-106). The result says whether the action returns
  \<open>null\<close> here (\<open>True\<close>) or goes on (\<open>False\<close>).
\<close>

definition pushSchema :: "'s env \<Rightarrow> push_options \<Rightarrow> string \<Rightarrow> project \<Rightarrow> ('s, bool) js" where
  "pushSchema d options schemaPath p =
     (if schemaPath \<noteq> [] \<and> \<not> codeOnly options then
        js_seq (emit (SpinnerText ''Updating schema...''))
          (js_try (js_seq (sendSchema d options schemaPath p) (js_return False))
             (\<lambda>error.
                js_seq (emit (SpinnerFail (''Failed to update schema: '' @ message error)))
                  (if schemaOnly options then js_return True
                   else js_seq (emit (ConsoleLog ''Will continue with code changes.''))
                               (js_return False))))
      else js_return False)"

text \<open>
  Destructuring \<^verbatim>\<open>const { token, repo_url, expires_at } = v\<close>: a TypeError when \<open>v\<close>
  is \<open>undefined\<close> or \<open>null\<close>.
\<close>

definition destructure3 :: "jsval \<Rightarrow> exn + (jsval \<times> jsval \<times> jsval)" where
  "destructure3 v =
     (case get_prop v ''token'' of
        Inl e \<Rightarrow> Inl (TypeError ''Cannot destructure property of undefined or null'')
      | Inr t \<Rightarrow>
          (case get_prop v ''repo_url'' of
             Inl e \<Rightarrow> Inl e
           | Inr r \<Rightarrow>
               (case get_prop v ''expires_at'' of
                  Inl e \<Rightarrow> Inl e
                | Inr x \<Rightarrow> Inr (t, r, x))))"

text \<open>
  The call \<open>git.configureWithToken(token, repo_url, expires_at)\<close> on values read from
  an object typed \<open>any\<close>. Values of the declared parameter types
  \<open>(string, string, number | undefined)\<close> are passed on. What \<open>configureWithToken\<close>
  does with a value of another type is not modelled; that branch stands for it, and
  lemma \<open>ensureCredentials_never_configures\<close> below shows that no run reaches this call
  at all.
\<close>

definition call_configureWithToken ::
  "'s env \<Rightarrow> jsval \<Rightarrow> jsval \<Rightarrow> jsval \<Rightarrow> ('s, bool) js" where
  "call_configureWithToken d t r x =
     (case (t, r, x) of
        (JStr t', JStr r', JNum e) \<Rightarrow> configureWithToken d t' r' (Some e)
      | (JStr t', JStr r', JUndefined) \<Rightarrow> configureWithToken d t' r' None
      | _ \<Rightarrow> js_throw (TypeError ''configureWithToken: argument outside its declared type''))"

text \<open>
  Steps 6 and 7 (lines 113-126; the pull command repeats the same lines). The result
  says whether the action goes on (\<open>True\<close>) or returns \<open>null\<close> (\<open>False\<close>).
\<close>

definition ensureCredentials :: "'s env \<Rightarrow> string \<Rightarrow> ('s, bool) js" where
  "ensureCredentials d projectId =
     js_bind (getGitCredentials d projectId True) (\<lambda>gitCredentials.
       if \<not> truthy gitCredentials then js_return False
       else
         js_bind (js_lift (get_prop gitCredentials ''reused'')) (\<lambda>reused.
           if truthy reused then
             js_seq (emit (SpinnerSucceed ''Using existing Git credentials''))
                    (js_return True)
           else
             js_bind (js_lift (get_prop gitCredentials ''git_info'')) (\<lambda>git_info'.
             js_bind (js_lift (destructure3 git_info')) (\<lambda>(t, r, x).
             js_seq (emit (SpinnerSucceed ''Git credentials generated successfully''))
            (js_seq (call_configureWithToken d t r x)
                    (js_return True))))))"

definition commitMessage :: "push_options \<Rightarrow> string" where
  "commitMessage options =
     (case opt_message options of
        None \<Rightarrow> ''Update from Ongoku CLI''
      | Some m \<Rightarrow> if m = [] then ''Update from Ongoku CLI'' else m)"

definition showChanges :: "status_result \<Rightarrow> ('s, unit) js" where
  "showChanges status =
     do_all
       [emit (ConsoleLog (CHR 0x0A # ''Changes to be pushed:'')),
        if created status \<noteq> [] then emit (ConsoleLog (''  New files: '' @ join '', '' (created status)))
        else js_return (),
        if modified status \<noteq> [] then emit (ConsoleLog (''  Modified: '' @ join '', '' (modified status)))
        else js_return (),
        if deleted status \<noteq> [] then emit (ConsoleLog (''  Deleted: '' @ join '', '' (deleted status)))
        else js_return ()]"

text \<open>Lines 113-160: credentials, the status check, and the commit and push.\<close>

definition pushCode :: "'s env \<Rightarrow> push_options \<Rightarrow> project \<Rightarrow> ('s, action_result) js" where
  "pushCode d options p =
     js_bind (ensureCredentials d (p_id p)) (\<lambda>proceed.
       if \<not> proceed then js_return Null
       else
         js_seq (emit (SpinnerText ''Checking for changes...''))
        (js_bind (getStatus d) (\<lambda>status.
           if isClean status then
             js_seq (emit (SpinnerInfo ''No changes to commit'')) (js_return Null)
           else
             js_seq (showChanges status)
            (js_seq (emit (SpinnerText ''Pushing code changes...''))
            (js_bind (commitAndPush d (commitMessage options)) (\<lambda>pushSuccess.
             js_seq (if pushSuccess
                     then emit (SpinnerSucceed ''Successfully pushed changes to Ongoku.'')
                     else emit (SpinnerFail ''Failed to push changes.''))
                    (js_return (Value True))))))))"

text \<open>Lines 67-160: what the action does once the project is found.\<close>

definition pushProject ::
  "'s env \<Rightarrow> push_options \<Rightarrow> string \<Rightarrow> project \<Rightarrow> ('s, action_result) js" where
  "pushProject d options schemaPath p =
     js_seq (emit (SpinnerSucceed (''Found project: '' @ p_name p)))
    (js_bind (pushSchema d options schemaPath p) (\<lambda>stop.
       if stop then js_return Null
       else if schemaOnly options then js_return Null
       else pushCode d options p))"

text \<open>
  The action of the command (lines 32-161), for a user who is logged in.
  \<open>projectDir\<close> is the resolved directory and \<open>projectDirName\<close> its
  \<open>path.basename\<close>.
\<close>

definition pushAction ::
  "'s env \<Rightarrow> push_options \<Rightarrow> string \<Rightarrow> string \<Rightarrow> ('s, action_result) js" where
  "pushAction d options projectDir projectDirName =
     js_bind (ask (e_isOngokuProject d)) (\<lambda>isProject.
       if \<not> isProject then
         js_seq (do_all
           [emit (ConsoleLog (''Directory '' @ projectDir @ '' is not a valid Ongoku project.'')),
            emit (ConsoleLog ''An Ongoku project should contain an ongoku.yaml file at the root.''),
            emit (ConsoleLog ''To push changes, you must be in an Ongoku project directory or specify one with --directory.'')])
           (js_return Null)
       else
         js_bind (isGitRepository d) (\<lambda>isRepo.
           if \<not> isRepo then
             js_seq (do_all
               [emit (ConsoleLog (''Directory '' @ projectDir @ '' is not a git repository.'')),
                emit (ConsoleLog ''Use `ongoku clone <project-name>` to clone a project first.'')])
               (js_return Null)
           else
             js_bind (ask (e_findSchemaFile d)) (\<lambda>schemaPath.
             js_bind
               (if schemaPath = [] \<and> \<not> codeOnly options then
                  js_seq (do_all
                    [emit (ConsoleLog ''Could not find a schema file in the project.''),
                     emit (ConsoleLog ''Will only push code changes without updating the schema.'')])
                    (if schemaOnly options then
                       js_seq (do_all
                         [emit (ConsoleLog ''Cannot push schema: No schema file found.''),
                          emit (ConsoleLog ''Create a schema file in the goku_schema directory first.'')])
                         (js_return True)
                     else js_return False)
                else js_return False) (\<lambda>stop.
               if stop then js_return Null
               else
                 js_bind (getProjectIdentifiers d projectDirName) (\<lambda>(projectName, remoteUrl).
                 js_bind (findProject d projectName (Some remoteUrl)) (\<lambda>found.
                   case found of
                     None \<Rightarrow> js_return Null
                   | Some p \<Rightarrow> pushProject d options schemaPath p))))))"

definition pushCommand ::
  "'s env \<Rightarrow> push_options \<Rightarrow> string \<Rightarrow> string \<Rightarrow> ('s, action_result) js" where
  "pushCommand d options projectDir projectDirName =
     withErrorHandling (pushAction d options projectDir projectDirName) ''Push failed''"

section \<open>The pull command (\<open>commands/pull.ts\<close>)\<close>

text \<open>
  Steps 5 and 6 of the pull action, once the project is found: the same credential lines
  as in the push command, then \<open>git.pull()\<close>. The listing of the schema files after a
  successful pull and the troubleshooting tips after a failed one are console output
  only and are left out.
\<close>

definition pullCode :: "'s env \<Rightarrow> project \<Rightarrow> ('s, action_result) js" where
  "pullCode d p =
     js_bind (ensureCredentials d (p_id p)) (\<lambda>proceed.
       if \<not> proceed then js_return Null
       else
         js_seq (emit (SpinnerText ''Pulling latest changes...''))
        (js_bind (pull d) (\<lambda>pullSuccess.
         js_seq (if pullSuccess
                 then emit (SpinnerSucceed ''Successfully pulled latest changes.'')
                 else emit (SpinnerFail ''Failed to pull changes.''))
                (js_return (Value pullSuccess)))))"

section \<open>A scripted environment\<close>

text \<open>
  A test double for the collaborators, used to run the model on concrete inputs: the
  git commands consume a script of outcomes (\<open>None\<close> succeeds, \<open>Some e\<close> throws \<open>e\<close>;
  an exhausted script succeeds), and every other collaborator answers from a field.
\<close>

record sim =
  script :: "exn option list"
  sim_clean :: bool
  sim_repo :: bool
  clock :: int
  sim_remotes :: "exn + git_remote list"
  listing :: "exn + project list"
  token_result :: "exn + token_response"
  schema_text :: "exn + string"
  push_result :: "exn + push_response"

definition sim_git :: "git_cmd \<Rightarrow> sim \<Rightarrow> (exn + unit) \<times> sim" where
  "sim_git c s =
     (case script s of
        [] \<Rightarrow> (Inr (), s)
      | None # rest \<Rightarrow> (Inr (), s\<lparr>script := rest\<rparr>)
      | Some e # rest \<Rightarrow> (Inl e, s\<lparr>script := rest\<rparr>))"

definition stub_yaml_load :: "string \<Rightarrow> exn + jsval" where
  "stub_yaml_load text = (if CHR 0x09 \<in> set text then Inl (JsError ''YAMLException'') else Inr (JStr text))"

definition stub_json_parse :: "string \<Rightarrow> exn + jsval" where
  "stub_json_parse text = (if prefix ''{'' text then Inr (JObj []) else Inl (JsError ''SyntaxError''))"

definition sim_env :: "sim env" where
  "sim_env =
     \<lparr>e_now = clock,
      e_isGitRepository = sim_repo,
      e_git = sim_git,
      e_status = (\<lambda>s. (Inr \<lparr>isClean = sim_clean s, created = [], modified = [], deleted = []\<rparr>, s)),
      e_getRemotes = (\<lambda>verbose s. (sim_remotes s, s)),
      e_getProjects = (\<lambda>s. (listing s, s)),
      e_getGitToken = (\<lambda>projectId s. (token_result s, s)),
      e_pushProjectUpdates = (\<lambda>projectId schema skip s. (push_result s, s)),
      e_readFile = (\<lambda>path s. schema_text s),
      e_yaml_load = stub_yaml_load,
      e_json_parse = stub_json_parse,
      e_isOngokuProject = (\<lambda>s. True),
      e_findSchemaFile = (\<lambda>s. ''goku_schema/app.schema.yml'')\<rparr>"

definition example_project :: project where
  "example_project =
     \<lparr>p_id = ''p1'', p_name = ''example'', p_status = ''active'',
      github_repo_url = Some ''https://github.com/build-ongoku/project-example''\<rparr>"

definition example_git_info :: git_info where
  "example_git_info =
     \<lparr>token = ''ghs_abc'',
      repo_url = ''https://github.com/build-ongoku/project-example'',
      auth_url = ''https://ghs_abc@github.com/build-ongoku/project-example'',
      expires_at = 1700003600000\<rparr>"

definition sim0 :: sim where
  "sim0 =
     \<lparr>script = [], sim_clean = False, sim_repo = True, clock = 1700000000000,
      sim_remotes =
        Inr [\<lparr>r_name = ''origin'',
              r_fetch = Some ''https://github.com/build-ongoku/project-example''\<rparr>],
      listing = Inr [example_project],
      token_result = Inr (\<lparr>success = True, info = Some example_git_info\<rparr>),
      schema_text = Inr ''name: example'',
      push_result = Inr (\<lparr>pr_success = True, warning = None\<rparr>)\<rparr>"

definition start :: "'s \<Rightarrow> 's world" where
  "start s = \<lparr>ext = s, tokenExpiry = None, out = []\<rparr>"

definition scripted :: "exn option list \<Rightarrow> sim" where
  "scripted outcomes = sim0\<lparr>script := outcomes\<rparr>"

section \<open>Observations on a run\<close>

text \<open>
  The git commands of a trace in order, the calls of a trace that threw, and the three
  traces with which \<open>commitAndPush\<close> can return \<open>true\<close>: the no-op on a clean working
  copy, the push that succeeds at once, and the push that is rejected, recovered and
  repeated.
\<close>

fun git_calls :: "event list \<Rightarrow> git_cmd list" where
  "git_calls [] = []"
| "git_calls (Git c r # evs) = c # git_calls evs"
| "git_calls (ev # evs) = git_calls evs"

lemma git_calls_append [simp]: "git_calls (xs @ ys) = git_calls xs @ git_calls ys"
  by (induction xs rule: git_calls.induct) simp_all

fun failed_call :: "event \<Rightarrow> bool" where
  "failed_call (Git c (Some e)) = True"
| "failed_call (GitStatus (Some e)) = True"
| "failed_call (GitGetRemotes v (Some e)) = True"
| "failed_call ev = False"

definition failed_calls :: "event list \<Rightarrow> event list" where
  "failed_calls evs = filter failed_call evs"

definition T_clean :: "event list" where
  "T_clean = [GitStatus None, SpinnerInfo ''No changes to commit'']"

definition T_pushed :: "string \<Rightarrow> event list" where
  "T_pushed msg = [GitStatus None, Git (Add ''.'') None,
     Git (Raw [''commit'', ''-m'', msg, ''--no-gpg-sign'']) None, Git Push None,
     SpinnerSucceed ''Changes committed and pushed successfully'']"

definition T_recovered :: "string \<Rightarrow> exn \<Rightarrow> event list" where
  "T_recovered msg e = [GitStatus None, Git (Add ''.'') None,
     Git (Raw [''commit'', ''-m'', msg, ''--no-gpg-sign'']) None, Git Push (Some e),
     ConsoleLog ''Push failed, trying to pull changes first...'',
     Git (Stash []) None, Git (Pull [''--ff-only'']) None, Git (Stash [''pop'']) None,
     Git (Add ''.'') None,
     Git (Raw [''commit'', ''-m'', ''Update from Ongoku CLI'', ''--no-gpg-sign'']) None,
     Git Push None,
     SpinnerSucceed ''Changes committed and pushed successfully'']"

section \<open>Symbolic execution\<close>

text \<open>
  Inversion rules: what a run of each combinator and of each collaborator call must
  have looked like, given how it ended.
\<close>

lemma js_bindE:
  assumes "js_bind m f w = (r, w')"
  obtains (threw) e where "m w = (Inl e, w')" "r = Inl e"
        | (returned) x w1 where "m w = (Inr x, w1)" "f x w1 = (r, w')"
  using assms by (auto simp: js_bind_def split: prod.splits sum.splits)

lemma js_seqE:
  assumes "js_seq m n w = (r, w')"
  obtains (threw) e where "m w = (Inl e, w')" "r = Inl e"
        | (returned) x w1 where "m w = (Inr x, w1)" "n w1 = (r, w')"
  using assms by (auto simp: js_seq_def js_bind_def split: prod.splits sum.splits)

lemma js_tryE:
  assumes "js_try m h w = (r, w')"
  obtains (returned) x where "m w = (Inr x, w')" "r = Inr x"
        | (caught) e w1 where "m w = (Inl e, w1)" "h e w1 = (r, w')"
  using assms by (auto simp: js_try_def split: prod.splits sum.splits)

lemma js_returnE:
  assumes "js_return x w = (r, w')"
  obtains "r = Inr x" "w' = w"
  using assms by (auto simp: js_return_def)

lemma js_throwE:
  assumes "js_throw e w = (r, w')"
  obtains "r = Inl e" "w' = w"
  using assms by (auto simp: js_throw_def)

lemma js_liftE:
  assumes "js_lift v w = (r, w')"
  obtains "r = v" "w' = w"
  using assms by (auto simp: js_lift_def)

lemma emitE:
  assumes "emit ev w = (r, w')"
  obtains "r = Inr ()" "w' = w\<lparr>out := out w @ [ev]\<rparr>"
  using assms by (auto simp: emit_def)

lemma gitE:
  assumes "git d c w = (r, w')"
  obtains s' where "e_git d c (ext w) = (r, s')"
    "w' = w\<lparr>ext := s', out := out w @ [Git c (thrown r)]\<rparr>"
  using assms by (auto simp: git_def split: prod.splits)

lemma git_statusE:
  assumes "git_status d w = (r, w')"
  obtains s' where "e_status d (ext w) = (r, s')"
    "w' = w\<lparr>ext := s', out := out w @ [GitStatus (thrown r)]\<rparr>"
  using assms by (auto simp: git_status_def split: prod.splits)

lemma git_getRemotesE:
  assumes "git_getRemotes d v w = (r, w')"
  obtains s' where "e_getRemotes d v (ext w) = (r, s')"
    "w' = w\<lparr>ext := s', out := out w @ [GitGetRemotes v (thrown r)]\<rparr>"
  using assms by (auto simp: git_getRemotes_def split: prod.splits)

lemma isGitRepositoryE:
  assumes "isGitRepository d w = (r, w')"
  obtains "r = Inr (e_isGitRepository d (ext w))" "w' = w"
proof -
  from assms have "r = Inr (e_isGitRepository d (ext w))" and "w' = w"
    unfolding isGitRepository_def by blast+
  then show thesis by (rule that)
qed

lemma set_tokenExpiryE:
  assumes "set_tokenExpiry d x w = (r, w')"
  obtains "r = Inr ()" "ext w' = ext w" "out w' = out w"
  using assms by (auto simp: set_tokenExpiry_def)

lemmas runE = js_bindE js_seqE js_tryE js_returnE js_throwE js_liftE emitE gitE git_statusE
  git_getRemotesE isGitRepositoryE set_tokenExpiryE

lemmas js_defs = js_return_def js_throw_def js_bind_def js_seq_def js_try_def js_lift_def
  emit_def git_def git_status_def git_getRemotes_def isGitRepository_def

lemmas sim_defs = sim_env_def sim_git_def sim0_def start_def scripted_def

section \<open>The commit-and-push protocol\<close>

lemma recovery_run:
  assumes "recovery d w = (r, w')"
  shows "\<exists>evs. out w' = out w @ evs \<and> length (filter (\<lambda>c. c = Push) (git_calls evs)) \<le> 1
    \<and> length (filter (\<lambda>c. c = Stash []) (git_calls evs)) \<le> 1
    \<and> length (filter (\<lambda>c. c = Pull [''--ff-only'']) (git_calls evs)) \<le> 1"
  using assms unfolding recovery_def do_all.simps
  by (elim js_seqE gitE js_returnE) simp_all

lemma push_with_recovery_run:
  assumes "push_with_recovery d w = (r, w')"
  shows "\<exists>evs. out w' = out w @ evs \<and> length (filter (\<lambda>c. c = Push) (git_calls evs)) \<le> 2
    \<and> length (filter (\<lambda>c. c = Stash []) (git_calls evs)) \<le> 1
    \<and> length (filter (\<lambda>c. c = Pull [''--ff-only'']) (git_calls evs)) \<le> 1"
  using assms unfolding push_with_recovery_def
  by (elim js_tryE js_seqE emitE gitE js_throwE js_returnE)
     (auto dest!: recovery_run)

lemma commitAndPush_run:
  assumes "commitAndPush d msg w = (r, w')"
  shows "(\<exists>b. r = Inr b) \<and> (\<exists>evs. out w' = out w @ evs
    \<and> length (filter (\<lambda>c. c = Push) (git_calls evs)) \<le> 2
    \<and> length (filter (\<lambda>c. c = Stash []) (git_calls evs)) \<le> 1
    \<and> length (filter (\<lambda>c. c = Pull [''--ff-only'']) (git_calls evs)) \<le> 1)"
  using assms unfolding commitAndPush_def
  by (elim js_tryE js_seqE js_bindE emitE gitE git_statusE js_throwE js_returnE isGitRepositoryE)
     (auto dest!: push_with_recovery_run
        elim!: js_seqE js_bindE emitE gitE git_statusE js_throwE js_returnE split: if_splits)

lemma recovery_ok:
  assumes "recovery d w = (Inr x, w')"
  shows "out w' = out w @
    [Git (Stash []) None, Git (Pull [''--ff-only'']) None, Git (Stash [''pop'']) None,
     Git (Add ''.'') None,
     Git (Raw [''commit'', ''-m'', ''Update from Ongoku CLI'', ''--no-gpg-sign'']) None,
     Git Push None]"
  using assms unfolding recovery_def do_all.simps
  by (elim js_seqE gitE js_returnE) simp_all

lemma push_with_recovery_ok:
  assumes "push_with_recovery d w = (Inr x, w')"
  shows "out w' = out w @ [Git Push None] \<or>
    (\<exists>e. out w' = out w @ [Git Push (Some e),
       ConsoleLog ''Push failed, trying to pull changes first...'',
       Git (Stash []) None, Git (Pull [''--ff-only'']) None, Git (Stash [''pop'']) None,
       Git (Add ''.'') None,
       Git (Raw [''commit'', ''-m'', ''Update from Ongoku CLI'', ''--no-gpg-sign'']) None,
       Git Push None])"
  using assms unfolding push_with_recovery_def
  by (elim js_tryE js_seqE emitE gitE js_throwE js_returnE) (auto dest!: recovery_ok)

lemma commitAndPush_success_runs:
  assumes "commitAndPush d msg w = (Inr True, w')"
  shows "out w' = out w @ T_clean \<or> out w' = out w @ T_pushed msg \<or>
         (\<exists>e. out w' = out w @ T_recovered msg e)"
  using assms unfolding commitAndPush_def
  by (auto elim!: js_tryE js_seqE js_bindE emitE gitE git_statusE js_throwE js_returnE
         isGitRepositoryE
       dest!: push_with_recovery_ok split: if_splits
       simp: T_clean_def T_pushed_def T_recovered_def)

lemma clone_run:
  assumes "clone d u dst w = (r, w')"
  shows "(\<exists>b. r = Inr b) \<and>
         (r = Inr True \<longrightarrow> failed_calls (out w') = failed_calls (out w))"
  using assms unfolding clone_def
  by (auto elim!: runE simp: failed_calls_def)

lemma pull_run:
  assumes "pull d w = (r, w')"
  shows "(\<exists>b. r = Inr b) \<and>
         (r = Inr True \<longrightarrow> failed_calls (out w') = failed_calls (out w))"
  using assms unfolding pull_def
  by (auto elim!: runE simp: failed_calls_def split: if_splits)

lemma configureWithToken_run:
  assumes "configureWithToken d t u x w = (r, w')"
  shows "(\<exists>b. r = Inr b) \<and>
         (r = Inr True \<longrightarrow> failed_calls (out w') = failed_calls (out w))"
  using assms unfolding configureWithToken_def
  by (auto elim!: runE simp: failed_calls_def split: if_splits option.splits)

lemma commitAndPush_true_failures:
  assumes "commitAndPush d msg w = (Inr True, w')"
  shows "failed_calls (out w') = failed_calls (out w) \<or>
         (\<exists>e. failed_calls (out w') = failed_calls (out w) @ [Git Push (Some e)])"
  using commitAndPush_success_runs[OF assms]
  by (auto simp: failed_calls_def T_clean_def T_pushed_def T_recovered_def)

lemmas engine_defs = commitAndPush_def push_with_recovery_def recovery_def js_defs

text \<open>
  C1. When the first push of \<open>commitAndPush\<close> is rejected and the fast-forward-only
  pull of the recovery then fails, the stash is popped whatever that pop returns, and
  the error the recovery block (lines 543-577) throws is the error of the first push,
  not the one of the pull. That error is what the handler of \<open>commitAndPush\<close>
  reports, and the caller gets \<open>false\<close>.
\<close>

theorem commitAndPush_failed_pull_reports_push_error:
  assumes "e_isGitRepository d (ext w)"
    and "e_status d (ext w) = (Inr st, s1)" and "\<not> isClean st"
    and "e_git d (Add ''.'') s1 = (Inr (), s2)"
    and "e_git d (Raw [''commit'', ''-m'', msg, ''--no-gpg-sign'']) s2 = (Inr (), s3)"
    and "e_git d Push s3 = (Inl pushError, s4)"
    and "e_git d (Stash []) s4 = (Inr (), s5)"
    and "e_git d (Pull [''--ff-only'']) s5 = (Inl pullError, s6)"
    and "e_git d (Stash [''pop'']) s6 = (popResult, s7)"
  shows "push_with_recovery d (w\<lparr>ext := s3\<rparr>) =
    (Inl pushError, w\<lparr>ext := s7, out := out w @
       [Git Push (Some pushError),
        ConsoleLog ''Push failed, trying to pull changes first...'',
        Git (Stash []) None, Git (Pull [''--ff-only'']) (Some pullError),
        Git (Stash [''pop'']) (thrown popResult)]\<rparr>) \<and>
   commitAndPush d msg w =
    (Inr False, w\<lparr>ext := s7, out := out w @
       [GitStatus None, Git (Add ''.'') None,
        Git (Raw [''commit'', ''-m'', msg, ''--no-gpg-sign'']) None,
        Git Push (Some pushError),
        ConsoleLog ''Push failed, trying to pull changes first...'',
        Git (Stash []) None, Git (Pull [''--ff-only'']) (Some pullError),
        Git (Stash [''pop'']) (thrown popResult),
        SpinnerFail ''Failed to commit and push changes'',
        ConsoleErrorExn ''Error details:'' pushError]\<rparr>)"
  using assms by (cases popResult) (simp_all add: engine_defs)

theorem commitAndPush_failed_pull_reports_push_error_witness:
  "commitAndPush sim_env ''update''
     (start (scripted [None, None, Some (JsError ''rejected''), None,
                       Some (JsError ''diverged''), Some (JsError ''no stash'')])) =
   (Inr False, \<lparr>ext = sim0, tokenExpiry = None, out =
       [GitStatus None, Git (Add ''.'') None,
        Git (Raw [''commit'', ''-m'', ''update'', ''--no-gpg-sign'']) None,
        Git Push (Some (JsError ''rejected'')),
        ConsoleLog ''Push failed, trying to pull changes first...'',
        Git (Stash []) None, Git (Pull [''--ff-only'']) (Some (JsError ''diverged'')),
        Git (Stash [''pop'']) (Some (JsError ''no stash'')),
        SpinnerFail ''Failed to commit and push changes'',
        ConsoleErrorExn ''Error details:'' (JsError ''rejected'')]\<rparr>)"
  using commitAndPush_failed_pull_reports_push_error
    [of sim_env
        "start (scripted [None, None, Some (JsError ''rejected''), None,
                          Some (JsError ''diverged''), Some (JsError ''no stash'')])"
        "\<lparr>isClean = False, created = [], modified = [], deleted = []\<rparr>"
        "scripted [None, None, Some (JsError ''rejected''), None,
                   Some (JsError ''diverged''), Some (JsError ''no stash'')]"
        "scripted [None, Some (JsError ''rejected''), None,
                   Some (JsError ''diverged''), Some (JsError ''no stash'')]"
        "''update''"
        "scripted [Some (JsError ''rejected''), None,
                   Some (JsError ''diverged''), Some (JsError ''no stash'')]"
        "JsError ''rejected''"
        "scripted [None, Some (JsError ''diverged''), Some (JsError ''no stash'')]"
        "scripted [Some (JsError ''diverged''), Some (JsError ''no stash'')]"
        "JsError ''diverged''"
        "scripted [Some (JsError ''no stash'')]"
        "Inl (JsError ''no stash'')"
        "scripted []"]
  by (simp add: sim_defs)

text \<open>
  C2. Every call of \<open>commitAndPush\<close> returns a boolean, and in the course of it
  \<open>git push\<close> runs at most twice and the recovery (its stash and its
  fast-forward-only pull) at most once.
\<close>

theorem commitAndPush_bounded_retry:
  "(\<exists>b. fst (commitAndPush d msg w) = Inr b) \<and>
   (\<exists>evs. out (snd (commitAndPush d msg w)) = out w @ evs \<and>
      length (filter (\<lambda>c. c = Push) (git_calls evs)) \<le> 2 \<and>
      length (filter (\<lambda>c. c = Stash []) (git_calls evs)) \<le> 1 \<and>
      length (filter (\<lambda>c. c = Pull [''--ff-only'']) (git_calls evs)) \<le> 1)"
proof -
  obtain r w' where run: "commitAndPush d msg w = (r, w')"
    by (cases "commitAndPush d msg w")
  from commitAndPush_run[OF run] run show ?thesis by simp
qed

theorem commitAndPush_bounded_retry_witness:
  "fst (commitAndPush sim_env ''update''
          (start (scripted [None, None, Some (JsError ''rejected''), None, None, None,
                            None, None, Some (JsError ''rejected again'')]))) = Inr False \<and>
   git_calls (out (snd (commitAndPush sim_env ''update''
          (start (scripted [None, None, Some (JsError ''rejected''), None, None, None,
                            None, None, Some (JsError ''rejected again'')]))))) =
     [Add ''.'', Raw [''commit'', ''-m'', ''update'', ''--no-gpg-sign''], Push,
      Stash [], Pull [''--ff-only''], Stash [''pop''], Add ''.'',
      Raw [''commit'', ''-m'', ''Update from Ongoku CLI'', ''--no-gpg-sign''], Push,
      Stash [''pop'']]"
  using commitAndPush_bounded_retry
    [of sim_env "''update''"
        "start (scripted [None, None, Some (JsError ''rejected''), None, None, None,
                          None, None, Some (JsError ''rejected again'')])"]
  by (simp add: engine_defs sim_defs)

text \<open>
  C9. On a clean working copy \<open>commitAndPush\<close> returns \<open>true\<close> after the status call
  alone: no add, commit or push runs and nothing fails. Its report is the spinner line
  \<open>No changes to commit\<close>, while every other call that returns \<open>true\<close> has pushed and
  ends with the report \<open>Changes committed and pushed successfully\<close>; the boolean
  itself is \<open>true\<close> in both cases.
\<close>

theorem commitAndPush_clean_is_noop:
  fixes d :: "'s env"
  assumes "e_isGitRepository d (ext w)"
    and "e_status d (ext w) = (Inr st, s1)" and "isClean st"
  shows "commitAndPush d msg w =
           (Inr True, w\<lparr>ext := s1,
              out := out w @ [GitStatus None, SpinnerInfo ''No changes to commit'']\<rparr>) \<and>
         (\<forall>(d'::'s env) msg' v v'. commitAndPush d' msg' v = (Inr True, v') \<longrightarrow>
            out v' = out v @ [GitStatus None, SpinnerInfo ''No changes to commit''] \<or>
            (\<exists>evs. out v' = out v @ evs @
                      [SpinnerSucceed ''Changes committed and pushed successfully''] \<and>
                   Push \<in> set (git_calls evs)))"
proof (intro conjI allI impI)
  from assms show "commitAndPush d msg w =
      (Inr True, w\<lparr>ext := s1,
         out := out w @ [GitStatus None, SpinnerInfo ''No changes to commit'']\<rparr>)"
    by (simp add: engine_defs)
next
    fix d' :: "'s env" and msg' v v'
    assume "commitAndPush d' msg' v = (Inr True, v')"
    from commitAndPush_success_runs[OF this]
    consider "out v' = out v @ T_clean" | "out v' = out v @ T_pushed msg'"
      | e where "out v' = out v @ T_recovered msg' e"
      by blast
    then show "out v' = out v @ [GitStatus None, SpinnerInfo ''No changes to commit''] \<or>
            (\<exists>evs. out v' = out v @ evs @
                      [SpinnerSucceed ''Changes committed and pushed successfully''] \<and>
                   Push \<in> set (git_calls evs))"
    proof cases
      case 1
      then show ?thesis by (simp add: T_clean_def)
    next
      case 2
      have "out v' = out v @ butlast (T_pushed msg') @
              [SpinnerSucceed ''Changes committed and pushed successfully''] \<and>
            Push \<in> set (git_calls (butlast (T_pushed msg')))"
        using 2 by (simp add: T_pushed_def)
      then show ?thesis by blast
    next
      case 3
      have "out v' = out v @ butlast (T_recovered msg' e) @
              [SpinnerSucceed ''Changes committed and pushed successfully''] \<and>
            Push \<in> set (git_calls (butlast (T_recovered msg' e)))"
        using 3 by (simp add: T_recovered_def)
      then show ?thesis by blast
    qed
qed

theorem commitAndPush_clean_is_noop_witness:
  "commitAndPush sim_env ''update'' (start (sim0\<lparr>sim_clean := True\<rparr>)) =
     (Inr True, \<lparr>ext = sim0\<lparr>sim_clean := True\<rparr>, tokenExpiry = None,
                out = [GitStatus None, SpinnerInfo ''No changes to commit'']\<rparr>) \<and>
   commitAndPush sim_env ''update'' (start sim0) =
     (Inr True, \<lparr>ext = sim0, tokenExpiry = None, out = T_pushed ''update''\<rparr>)"
  using commitAndPush_clean_is_noop
    [of sim_env "start (sim0\<lparr>sim_clean := True\<rparr>)"
        "\<lparr>isClean = True, created = [], modified = [], deleted = []\<rparr>"
        "sim0\<lparr>sim_clean := True\<rparr>" "''update''"]
  by (simp add: engine_defs sim_defs T_pushed_def)

text \<open>
  C10, as amended. \<open>clone\<close>, \<open>pull\<close>, \<open>configureWithToken\<close> and \<open>commitAndPush\<close> never
  throw: each returns a boolean. The first three return \<open>true\<close> only when no git call
  they made failed. \<open>commitAndPush\<close> returns \<open>true\<close> only when no git call failed, or
  when the one call that failed is the first push and the recovery then went through.
\<close>

theorem git_engine_returns_boolean:
  "((\<exists>b. fst (clone d u dst w) = Inr b) \<and>
    (fst (clone d u dst w) = Inr True \<longrightarrow>
       failed_calls (out (snd (clone d u dst w))) = failed_calls (out w))) \<and>
   ((\<exists>b. fst (pull d w) = Inr b) \<and>
    (fst (pull d w) = Inr True \<longrightarrow>
       failed_calls (out (snd (pull d w))) = failed_calls (out w))) \<and>
   ((\<exists>b. fst (configureWithToken d t u x w) = Inr b) \<and>
    (fst (configureWithToken d t u x w) = Inr True \<longrightarrow>
       failed_calls (out (snd (configureWithToken d t u x w))) = failed_calls (out w))) \<and>
   ((\<exists>b. fst (commitAndPush d msg w) = Inr b) \<and>
    (fst (commitAndPush d msg w) = Inr True \<longrightarrow>
       failed_calls (out (snd (commitAndPush d msg w))) = failed_calls (out w) \<or>
       (\<exists>e. failed_calls (out (snd (commitAndPush d msg w))) =
              failed_calls (out w) @ [Git Push (Some e)])))"
proof (intro conjI)
  obtain r w' where run: "clone d u dst w = (r, w')" by (cases "clone d u dst w")
  from clone_run[OF run] run
  show "\<exists>b. fst (clone d u dst w) = Inr b"
    and "fst (clone d u dst w) = Inr True \<longrightarrow>
       failed_calls (out (snd (clone d u dst w))) = failed_calls (out w)"
    by simp_all
next
  obtain r w' where run: "pull d w = (r, w')" by (cases "pull d w")
  from pull_run[OF run] run
  show "\<exists>b. fst (pull d w) = Inr b"
    and "fst (pull d w) = Inr True \<longrightarrow>
       failed_calls (out (snd (pull d w))) = failed_calls (out w)"
    by simp_all
next
  obtain r w' where run: "configureWithToken d t u x w = (r, w')"
    by (cases "configureWithToken d t u x w")
  from configureWithToken_run[OF run] run
  show "\<exists>b. fst (configureWithToken d t u x w) = Inr b"
    and "fst (configureWithToken d t u x w) = Inr True \<longrightarrow>
       failed_calls (out (snd (configureWithToken d t u x w))) = failed_calls (out w)"
    by simp_all
next
  obtain r w' where run: "commitAndPush d msg w = (r, w')"
    by (cases "commitAndPush d msg w")
  from commitAndPush_run[OF run] run
  show "\<exists>b. fst (commitAndPush d msg w) = Inr b" by simp
  show "fst (commitAndPush d msg w) = Inr True \<longrightarrow>
       failed_calls (out (snd (commitAndPush d msg w))) = failed_calls (out w) \<or>
       (\<exists>e. failed_calls (out (snd (commitAndPush d msg w))) =
              failed_calls (out w) @ [Git Push (Some e)])"
  proof
    assume "fst (commitAndPush d msg w) = Inr True"
    with run have "commitAndPush d msg w = (Inr True, w')" by simp
    from commitAndPush_true_failures[OF this] run
    show "failed_calls (out (snd (commitAndPush d msg w))) = failed_calls (out w) \<or>
       (\<exists>e. failed_calls (out (snd (commitAndPush d msg w))) =
              failed_calls (out w) @ [Git Push (Some e)])"
      by simp
  qed
qed

theorem git_engine_returns_boolean_witness:
  "fst (clone sim_env ''https://t@github.com/o/r'' ''r'' (start (scripted []))) = Inr True \<and>
   failed_calls (out (snd (clone sim_env ''https://t@github.com/o/r'' ''r''
                             (start (scripted []))))) = [] \<and>
   fst (pull sim_env (start (scripted [Some (JsError ''diverged'')]))) = Inr False \<and>
   fst (configureWithToken sim_env ''t'' ''https://github.com/o/r'' None
          (start (scripted [None, Some (JsError ''locked'')]))) = Inr False \<and>
   fst (commitAndPush sim_env ''update''
          (start (scripted [None, None, Some (JsError ''rejected'')]))) = Inr True \<and>
   failed_calls (out (snd (commitAndPush sim_env ''update''
          (start (scripted [None, None, Some (JsError ''rejected'')]))))) =
     [Git Push (Some (JsError ''rejected''))]"
  using git_engine_returns_boolean
    [of sim_env "''https://t@github.com/o/r''" "''r''" "start (scripted [])"]
  by (simp add: engine_defs sim_defs clone_def pull_def configureWithToken_def
        set_tokenExpiry_def js_replace_def failed_calls_def)

theorem git_engine_returns_boolean_counterexample:
  "e_git sim_env Push (scripted [Some (JsError ''rejected'')]) =
     (Inl (JsError ''rejected''), scripted []) \<and>
   commitAndPush sim_env ''update'' (start (scripted [None, None, Some (JsError ''rejected'')])) =
     (Inr True, \<lparr>ext = sim0, tokenExpiry = None,
                out = T_recovered ''update'' (JsError ''rejected'')\<rparr>)"
  by (simp add: engine_defs sim_defs T_recovered_def)

section \<open>Project resolution\<close>

lemma find_first_nonempty:
  "find_first pat s = Some (b, a) \<Longrightarrow> pat \<noteq> [] \<Longrightarrow> s \<noteq> []"
  by (cases s) simp_all

lemma js_split_second:
  assumes "sep \<noteq> []" and "find_first sep u = Some (b, rest)"
  shows "nth_opt (js_split sep u) 1 =
           Some (case find_first sep rest of None \<Rightarrow> rest | Some (seg, a) \<Rightarrow> seg)"
proof -
  from assms have "js_split sep u = b # js_split sep rest"
    by (subst js_split.simps) simp
  moreover from assms(1) have "js_split sep rest =
      (case find_first sep rest of None \<Rightarrow> [rest] | Some (seg, a) \<Rightarrow> seg # js_split sep a)"
    by (subst js_split.simps) simp
  ultimately show ?thesis
    by (simp add: nth_opt_def split: option.splits)
qed

lemma find_Some_of_member:
  assumes "x \<in> set xs" and "P x"
  shows "\<exists>y. find P xs = Some y \<and> P y"
  using assms by (induction xs) auto

text \<open>
  C3. When the derived name has the shape of an identifier and a listed project has
  that id, resolution returns that project (the first with that id), whatever the
  remote URL and whatever the names of the listed projects.
\<close>

theorem findProject_id_match_wins:
  assumes "looks_like_id projectName"
    and "find (\<lambda>p. p_id p = projectName) projects = Some p"
    and "e_getProjects d (ext w) = (Inr projects, s')"
  shows "select_project projects projectName remoteUrl = Some p \<and>
         p_id p = projectName \<and>
         fst (findProject d projectName remoteUrl w) = Inr (Some p)"
proof -
  from assms(1,2) have sel: "select_project projects projectName remoteUrl = Some p"
    by (simp add: select_project_def by_id_def)
  from assms(2) have "p_id p = projectName"
    by (auto simp: find_Some_iff)
  moreover from sel assms(3) have "fst (findProject d projectName remoteUrl w) = Inr (Some p)"
    by (simp add: findProject_def api_getProjects_def js_defs)
  ultimately show ?thesis using sel by simp
qed

definition project_by_name :: project where
  "project_by_name =
     \<lparr>p_id = ''b'', p_name = ''0a1b2c3d-0000-4000-8000-00000000ABCD'', p_status = ''active'',
      github_repo_url = Some ''https://github.com/build-ongoku/project-example''\<rparr>"

definition project_by_id :: project where
  "project_by_id =
     \<lparr>p_id = ''0a1b2c3d-0000-4000-8000-00000000ABCD'', p_name = ''alpha'',
      p_status = ''active'', github_repo_url = None\<rparr>"

theorem findProject_id_match_wins_witness:
  "fst (findProject sim_env ''0a1b2c3d-0000-4000-8000-00000000ABCD''
          (Some ''https://github.com/build-ongoku/project-example'')
          (start (sim0\<lparr>listing := Inr [project_by_name, project_by_id]\<rparr>))) =
     Inr (Some project_by_id) \<and>
   name_matches ''0a1b2c3d-0000-4000-8000-00000000ABCD'' project_by_name \<and>
   url_matches ''https://github.com/build-ongoku/project-example'' project_by_name"
proof -
  have id: "looks_like_id ''0a1b2c3d-0000-4000-8000-00000000ABCD''"
    by code_simp
  have f: "find (\<lambda>p. p_id p = ''0a1b2c3d-0000-4000-8000-00000000ABCD'')
             [project_by_name, project_by_id] = Some project_by_id"
    by code_simp
  have l: "e_getProjects sim_env
             (ext (start (sim0\<lparr>listing := Inr [project_by_name, project_by_id]\<rparr>))) =
           (Inr [project_by_name, project_by_id],
            sim0\<lparr>listing := Inr [project_by_name, project_by_id]\<rparr>)"
    by (simp add: sim_defs)
  have n: "name_matches ''0a1b2c3d-0000-4000-8000-00000000ABCD'' project_by_name"
    by code_simp
  have u: "url_matches ''https://github.com/build-ongoku/project-example'' project_by_name"
    by code_simp
  from findProject_id_match_wins[OF id f l] n u show ?thesis by simp
qed

text \<open>
  C6, as amended. When no project is matched by id and the remote URL is not empty,
  resolution returns a project, the first in listing order that passes the test of the
  second strategy, whenever some listed project has a \<open>github_repo_url\<close> that contains
  \<open>github.com/\<close> and the text after it (up to a further \<open>github.com/\<close>, if there is
  one) occurs in the remote URL.
\<close>

theorem select_project_github_url_match:
  assumes "by_id projects projectName = None"
    and "r \<noteq> []"
    and "p \<in> set projects" and "github_repo_url p = Some u"
    and "find_first ''github.com/'' u = Some (b, rest)"
    and "js_includes r (case find_first ''github.com/'' rest of
                          None \<Rightarrow> rest | Some (seg, a) \<Rightarrow> seg)"
  shows "\<exists>q. select_project projects projectName (Some r) = Some q \<and>
             find (url_matches r) projects = Some q \<and> url_matches r q"
proof -
  have "u \<noteq> []"
    using assms(5) by (auto dest: find_first_nonempty)
  moreover have "nth_opt (js_split ''github.com/'' u) 1 =
      Some (case find_first ''github.com/'' rest of None \<Rightarrow> rest | Some (seg, a) \<Rightarrow> seg)"
    using assms(5) by (intro js_split_second) simp_all
  ultimately have "url_matches r p"
    using assms(4,6) by (simp add: url_matches_def)
  with assms(3) obtain q where q: "find (url_matches r) projects = Some q" "url_matches r q"
    using find_Some_of_member[of p projects "url_matches r"] by blast
  with assms(1,2) have "select_project projects projectName (Some r) = Some q"
    by (simp add: select_project_def by_url_def)
  with q show ?thesis by blast
qed

theorem select_project_github_url_match_witness:
  "(\<exists>q. select_project
           [\<lparr>p_id = ''7'', p_name = ''billing'', p_status = ''active'',
             github_repo_url = None\<rparr>, example_project]
           ''proj-x'' (Some ''git@github.com:build-ongoku/project-example.git'') = Some q \<and>
        find (url_matches ''git@github.com:build-ongoku/project-example.git'')
           [\<lparr>p_id = ''7'', p_name = ''billing'', p_status = ''active'',
             github_repo_url = None\<rparr>, example_project] = Some q \<and>
        url_matches ''git@github.com:build-ongoku/project-example.git'' q) \<and>
   select_project
     [\<lparr>p_id = ''7'', p_name = ''billing'', p_status = ''active'', github_repo_url = None\<rparr>,
      example_project]
     ''proj-x'' (Some ''git@github.com:build-ongoku/project-example.git'') =
     Some example_project"
proof -
  have 1: "by_id [\<lparr>p_id = ''7'', p_name = ''billing'', p_status = ''active'',
                    github_repo_url = None\<rparr>, example_project] ''proj-x'' = None"
    by code_simp
  have 2: "''git@github.com:build-ongoku/project-example.git'' \<noteq> []" by simp
  have 3: "example_project \<in> set [\<lparr>p_id = ''7'', p_name = ''billing'', p_status = ''active'',
                    github_repo_url = None\<rparr>, example_project]" by simp
  have 4: "github_repo_url example_project =
             Some ''https://github.com/build-ongoku/project-example''"
    by (simp add: example_project_def)
  have 5: "find_first ''github.com/'' ''https://github.com/build-ongoku/project-example'' =
             Some (''https://'', ''build-ongoku/project-example'')"
    by code_simp
  have 6: "js_includes ''git@github.com:build-ongoku/project-example.git''
             (case find_first ''github.com/'' ''build-ongoku/project-example'' of
                None \<Rightarrow> ''build-ongoku/project-example'' | Some (seg, a) \<Rightarrow> seg)"
    by code_simp
  have 7: "select_project
     [\<lparr>p_id = ''7'', p_name = ''billing'', p_status = ''active'', github_repo_url = None\<rparr>,
      example_project]
     ''proj-x'' (Some ''git@github.com:build-ongoku/project-example.git'') =
     Some example_project"
    by code_simp
  from select_project_github_url_match[OF 1 2 3 4 5 6] 7 show ?thesis by blast
qed

theorem select_project_other_host_counterexample:
  "js_includes ''https://git.example.com/org/proj-x'' ''org/proj-x'' \<and>
   select_project
     [\<lparr>p_id = ''7'', p_name = ''billing'', p_status = ''active'',
       github_repo_url = Some ''https://git.example.com/org/proj-x''\<rparr>]
     ''proj-x'' (Some ''https://git.example.com/org/proj-x'') = None"
  by code_simp

section \<open>Credential validity\<close>

lemma isTokenValid_exact:
  "isTokenValid tokenExpiry' now \<longleftrightarrow>
     (\<exists>e. tokenExpiry' = Some e \<and> e \<noteq> 0 \<and> now < e - bufferMs)"
  by (cases tokenExpiry') (simp_all add: isTokenValid_def)

text \<open>
  C4. With \<open>now\<close> a reading of the clock in milliseconds since the epoch (so not
  negative), \<open>isTokenValid\<close> is true exactly when an expiry is held and \<open>now\<close> is
  strictly before the expiry minus five minutes: false when the expiry is
  \<open>now + 5min\<close>, true when it is \<open>now + 5min + 1ms\<close>. It is a function of the held
  expiry and the clock alone, so it changes nothing and cannot fail.
\<close>

theorem isTokenValid_five_minute_buffer:
  assumes "0 \<le> now"
  shows "(isTokenValid held now \<longleftrightarrow> (\<exists>e. held = Some e \<and> now < e - 5 * 60 * 1000)) \<and>
         \<not> isTokenValid (Some (now + 5 * 60 * 1000)) now \<and>
         isTokenValid (Some (now + 5 * 60 * 1000 + 1)) now"
proof (intro conjI)
  show "isTokenValid held now \<longleftrightarrow> (\<exists>e. held = Some e \<and> now < e - 5 * 60 * 1000)"
  proof (cases held)
    case None
    then show ?thesis by (simp add: isTokenValid_def)
  next
    case (Some e)
    from assms have "now < e - 300000 \<Longrightarrow> e \<noteq> 0" by linarith
    with Some show ?thesis by (auto simp: isTokenValid_def bufferMs_def)
  qed
next
  show "\<not> isTokenValid (Some (now + 5 * 60 * 1000)) now"
    by (simp add: isTokenValid_def bufferMs_def)
next
  from assms have "now + 300001 \<noteq> 0" by linarith
  then show "isTokenValid (Some (now + 5 * 60 * 1000 + 1)) now"
    by (simp add: isTokenValid_def bufferMs_def)
qed

theorem isTokenValid_five_minute_buffer_witness:
  "isTokenValid (Some 1700003600000) (1700003600000 - 301000) \<and>
   \<not> isTokenValid (Some 1700003600000) (1700003600000 - 299000) \<and>
   \<not> isTokenValid (Some 1700003600000) (1700003600000 - 300000) \<and>
   isTokenValid (Some 1700003600000) (1700003600000 - 300001) \<and>
   \<not> isTokenValid None 1700000000000"
  using isTokenValid_five_minute_buffer[of 1700003299000 "Some 1700003600000"]
        isTokenValid_five_minute_buffer[of 1700003301000 "Some 1700003600000"]
        isTokenValid_five_minute_buffer[of 1700003300000 "Some 1700003600000"]
        isTokenValid_five_minute_buffer[of 1700003299999 "Some 1700003600000"]
        isTokenValid_five_minute_buffer[of 1700000000000 None]
  by simp

section \<open>Schema decoding\<close>

text \<open>
  C7. The schema text is decoded as YAML first; when YAML decoding throws it is decoded
  as JSON; a text that YAML rejects and JSON accepts decodes to the JSON value, and a
  text both reject throws the error
  \<open>Schema file is neither valid YAML nor JSON\<close>.
\<close>

theorem decodeSchema_yaml_then_json:
  "(e_yaml_load d content = Inr v \<longrightarrow> decodeSchema d content = Inr v) \<and>
   (e_yaml_load d content = Inl yamlError \<and> e_json_parse d content = Inr v \<longrightarrow>
      decodeSchema d content = Inr v) \<and>
   (e_yaml_load d content = Inl yamlError \<and> e_json_parse d content = Inl jsonError \<longrightarrow>
      decodeSchema d content = Inl (JsError ''Schema file is neither valid YAML nor JSON''))"
  by (simp add: decodeSchema_def)

theorem decodeSchema_yaml_then_json_witness:
  "decodeSchema sim_env ''name: example'' = Inr (JStr ''name: example'') \<and>
   e_yaml_load sim_env [CHR ''{'', CHR 0x09, CHR ''}''] = Inl (JsError ''YAMLException'') \<and>
   decodeSchema sim_env [CHR ''{'', CHR 0x09, CHR ''}''] = Inr (JObj []) \<and>
   decodeSchema sim_env [CHR 0x09, CHR ''{''] =
     Inl (JsError ''Schema file is neither valid YAML nor JSON'')"
  using decodeSchema_yaml_then_json
          [of sim_env "''name: example''" "JStr ''name: example''"]
        decodeSchema_yaml_then_json
          [of sim_env "[CHR ''{'', CHR 0x09, CHR ''}'']" "JObj []" "JsError ''YAMLException''"]
        decodeSchema_yaml_then_json
          [of sim_env "[CHR 0x09, CHR ''{'']" _ "JsError ''YAMLException''"
              "JsError ''SyntaxError''"]
  by (simp add: sim_env_def stub_yaml_load_def stub_json_parse_def)

section \<open>The push command\<close>

lemmas push_defs = ensureCredentials_def getGitCredentials_def api_getGitToken_def
  js_of_git_info_def reused_credentials_def destructure3_def tokenValid_def

text \<open>
  Were a valid token held, the issuance service would not be called and the remote
  configuration would be left alone.
\<close>

lemma ensureCredentials_reuses_valid_token:
  assumes "tokenValid d w"
  shows "ensureCredentials d projectId w =
           (Inr True, w\<lparr>out := out w @ [SpinnerText ''Using existing Git credentials...'',
                                         SpinnerSucceed ''Using existing Git credentials'']\<rparr>)"
  using assms by (simp add: push_defs js_defs)

text \<open>
  C5 (the code departs from the claim). With no valid cached token, and a token issued
  by the service, steps 6 and 7 read \<open>gitCredentials.git_info\<close> from an object that
  already is the \<open>git_info\<close>: the value is \<open>undefined\<close>, destructuring it throws a
  TypeError, and \<open>configureWithToken\<close> is never called: no git command runs and
  \<open>tokenExpiry\<close> stays as it was.
\<close>

theorem ensureCredentials_fresh_token_throws:
  assumes "\<not> tokenValid d w"
    and "e_getGitToken d projectId (ext w) = (Inr \<lparr>success = True, info = Some gi\<rparr>, s')"
  shows "ensureCredentials d projectId w =
           (Inl (TypeError ''Cannot destructure property of undefined or null''),
            w\<lparr>ext := s',
              out := out w @ [SpinnerText ''Generating Git credentials...'',
                              ApiGetGitToken projectId None]\<rparr>)"
  using assms by (simp add: push_defs js_defs)

theorem ensureCredentials_fresh_token_throws_witness:
  "\<not> tokenValid sim_env (start sim0) \<and>
   ensureCredentials sim_env ''p1'' (start sim0) =
     (Inl (TypeError ''Cannot destructure property of undefined or null''),
      \<lparr>ext = sim0, tokenExpiry = None,
       out = [SpinnerText ''Generating Git credentials...'', ApiGetGitToken ''p1'' None]\<rparr>)"
proof -
  have 1: "\<not> tokenValid sim_env (start sim0)"
    by (simp add: tokenValid_def isTokenValid_def start_def)
  have 2: "e_getGitToken sim_env ''p1'' (ext (start sim0)) =
             (Inr \<lparr>success = True, info = Some example_git_info\<rparr>, sim0)"
    by (simp add: sim_defs)
  from ensureCredentials_fresh_token_throws[OF 1 2] 1 show ?thesis
    by (simp add: start_def)
qed

text \<open>
  Neither command gets past that point: the code synchronization of the push and the
  pull both end with the TypeError, before any git command.
\<close>

lemma pushCode_fresh_token_throws:
  assumes "\<not> tokenValid d w"
    and "e_getGitToken d (p_id p) (ext w) = (Inr \<lparr>success = True, info = Some gi\<rparr>, s')"
  shows "pushCode d options p w =
           (Inl (TypeError ''Cannot destructure property of undefined or null''),
            w\<lparr>ext := s',
              out := out w @ [SpinnerText ''Generating Git credentials...'',
                              ApiGetGitToken (p_id p) None]\<rparr>)"
  using assms by (simp add: pushCode_def push_defs js_defs)

lemma pullCode_fresh_token_throws:
  assumes "\<not> tokenValid d w"
    and "e_getGitToken d (p_id p) (ext w) = (Inr \<lparr>success = True, info = Some gi\<rparr>, s')"
  shows "pullCode d p w =
           (Inl (TypeError ''Cannot destructure property of undefined or null''),
            w\<lparr>ext := s',
              out := out w @ [SpinnerText ''Generating Git credentials...'',
                              ApiGetGitToken (p_id p) None]\<rparr>)"
  using assms by (simp add: pullCode_def push_defs js_defs)

text \<open>
  The whole command on that input: the TypeError reaches \<open>withErrorHandling\<close>, which
  reports \<open>Push failed\<close>; nothing is configured, committed or pushed.
\<close>

lemma pushCommand_fresh_token_fails:
  "pushCommand sim_env \<lparr>opt_message = Some ''Update from Ongoku CLI'', schemaOnly = False,
       codeOnly = True\<rparr> ''/work/project-example'' ''project-example'' (start sim0) =
     (Inr Null,
      \<lparr>ext = sim0, tokenExpiry = None,
       out = [GitGetRemotes True None,
              SpinnerText ''Found remote: https://github.com/build-ongoku/project-example'',
              SpinnerText ''Fetching projects...'', ApiGetProjects None,
              SpinnerSucceed ''Found project: example'',
              SpinnerText ''Generating Git credentials...'', ApiGetGitToken ''p1'' None,
              SpinnerFail ''Push failed'',
              ConsoleError ''Cannot destructure property of undefined or null'']\<rparr>)"
  by code_simp

text \<open>
  The code synchronization always begins with the credential step: whatever happens
  later, the first thing \<open>pushCode\<close> reports is which of the two ways of getting
  credentials it takes.
\<close>

lemma api_getGitTokenE:
  assumes "api_getGitToken d projectId w = (r, w')"
  obtains s' where "e_getGitToken d projectId (ext w) = (r, s')"
    "w' = w\<lparr>ext := s', out := out w @ [ApiGetGitToken projectId (thrown r)]\<rparr>"
  using assms by (auto simp: api_getGitToken_def split: prod.splits)

lemma getGitCredentials_run:
  assumes "getGitCredentials d projectId True v = (r, v')"
  shows "\<exists>evs. out v' = out v @
           SpinnerText (if tokenValid d v then ''Using existing Git credentials...''
                        else ''Generating Git credentials...'') # evs"
  using assms unfolding getGitCredentials_def
  by (auto elim!: js_tryE js_seqE js_bindE emitE js_returnE api_getGitTokenE
        split: if_splits option.splits)

lemma configureWithToken_appends:
  assumes "configureWithToken d t u x w = (r, w')"
  shows "\<exists>evs. out w' = out w @ evs"
  using assms unfolding configureWithToken_def
  by (auto elim!: runE split: if_splits option.splits)

lemma call_configureWithToken_appends:
  assumes "call_configureWithToken d t u x w = (r, w')"
  shows "\<exists>evs. out w' = out w @ evs"
  using assms unfolding call_configureWithToken_def
  by (auto elim!: js_throwE dest!: configureWithToken_appends split: jsval.splits)

lemma ensureCredentials_run:
  assumes "ensureCredentials d projectId v = (r, v')"
  shows "\<exists>evs. out v' = out v @
           SpinnerText (if tokenValid d v then ''Using existing Git credentials...''
                        else ''Generating Git credentials...'') # evs"
  using assms unfolding ensureCredentials_def
  by (elim js_bindE)
     (auto dest!: getGitCredentials_run call_configureWithToken_appends
        elim!: js_seqE js_bindE emitE js_returnE js_liftE split: if_splits prod.splits)


lemma getStatus_appends:
  assumes "getStatus d w = (r, w')"
  shows "\<exists>evs. out w' = out w @ evs"
  using assms unfolding getStatus_def
  by (auto elim!: runE)

lemma showChanges_appends:
  assumes "showChanges st w = (r, w')"
  shows "\<exists>evs. out w' = out w @ evs"
  using assms unfolding showChanges_def do_all.simps
  by (auto elim!: runE split: if_splits)

lemma commitAndPush_appends:
  assumes "commitAndPush d msg w = (r, w')"
  shows "\<exists>evs. out w' = out w @ evs"
  using commitAndPush_run[OF assms] by blast

lemma pushCode_run:
  assumes "pushCode d options p v = (r, v')"
  shows "\<exists>evs. out v' = out v @
           SpinnerText (if tokenValid d v then ''Using existing Git credentials...''
                        else ''Generating Git credentials...'') # evs"
  using assms unfolding pushCode_def
  by (elim js_bindE)
     (auto dest!: ensureCredentials_run getStatus_appends showChanges_appends
          commitAndPush_appends
        elim!: js_seqE js_bindE emitE js_returnE split: if_splits)

text \<open>
  The credential step never reaches \<open>configureWithToken\<close>, whatever the service
  answers: it runs no git command and leaves \<open>tokenExpiry\<close> as it was.
\<close>

lemma getGitCredentials_values:
  assumes "getGitCredentials d projectId True v = (r, v')"
  shows "tokenExpiry v' = tokenExpiry v \<and> git_calls (out v') = git_calls (out v) \<and>
         r \<in> Inr ` ({reused_credentials, JNull} \<union> range js_of_git_info)"
  using assms unfolding getGitCredentials_def
  by (auto elim!: js_tryE js_seqE js_bindE emitE js_returnE api_getGitTokenE
        split: if_splits option.splits)

lemma ensureCredentials_never_configures:
  assumes "ensureCredentials d projectId v = (r, v')"
  shows "tokenExpiry v' = tokenExpiry v \<and> git_calls (out v') = git_calls (out v)"
  using assms unfolding ensureCredentials_def
  by (elim js_bindE)
     (auto dest!: getGitCredentials_values
        elim!: js_seqE js_bindE emitE js_returnE js_liftE
        simp: reused_credentials_def js_of_git_info_def destructure3_def
        split: if_splits prod.splits)

text \<open>
  The push command checks the status itself (lines 128-135): were a valid token held,
  on a clean working copy it would report \<open>No changes to commit\<close> and return \<open>null\<close>
  without calling \<open>commitAndPush\<close>.
\<close>

lemma pushCode_clean_returns_null:
  assumes "tokenValid d w"
    and "e_status d (ext w) = (Inr st, s1)" and "isClean st"
  shows "pushCode d options p w =
           (Inr Null,
            w\<lparr>ext := s1,
              out := out w @ [SpinnerText ''Using existing Git credentials...'',
                              SpinnerSucceed ''Using existing Git credentials'',
                              SpinnerText ''Checking for changes...'', GitStatus None,
                              SpinnerInfo ''No changes to commit'']\<rparr>)"
  using assms by (simp add: pushCode_def push_defs getStatus_def js_defs)

text \<open>
  The decision after a failed schema step (lines 99-111). When the schema step of a
  push throws (reading, decoding or sending), the failure is reported; in schema-only
  mode the action then returns at once, with no credential request and no git
  command, and otherwise it logs that it continues and enters the code
  synchronization (\<open>pushCode\<close>), which begins with the credential step.
\<close>

lemma pushProject_schema_failure:
  assumes "schemaPath \<noteq> []" and "\<not> codeOnly options"
    and "sendSchema d options schemaPath p
           (w\<lparr>out := out w @ [SpinnerSucceed (''Found project: '' @ p_name p),
                               SpinnerText ''Updating schema...'']\<rparr>) = (Inl err, w1)"
  shows "(schemaOnly options \<longrightarrow>
            pushProject d options schemaPath p w =
              (Inr Null,
               w1\<lparr>out := out w1 @
                  [SpinnerFail (''Failed to update schema: '' @ message err)]\<rparr>)) \<and>
         (\<not> schemaOnly options \<longrightarrow>
            pushProject d options schemaPath p w =
              pushCode d options p
                (w1\<lparr>out := out w1 @
                   [SpinnerFail (''Failed to update schema: '' @ message err),
                    ConsoleLog ''Will continue with code changes.'']\<rparr>) \<and>
            (\<exists>evs. out (snd (pushProject d options schemaPath p w)) =
               out w1 @
                 [SpinnerFail (''Failed to update schema: '' @ message err),
                  ConsoleLog ''Will continue with code changes.'',
                  SpinnerText (if tokenValid d w1 then ''Using existing Git credentials...''
                               else ''Generating Git credentials...'')] @ evs))"
proof (intro conjI impI)
  assume "schemaOnly options"
  with assms show "pushProject d options schemaPath p w =
      (Inr Null,
       w1\<lparr>out := out w1 @ [SpinnerFail (''Failed to update schema: '' @ message err)]\<rparr>)"
    by (simp add: pushProject_def pushSchema_def js_defs)
next
  assume "\<not> schemaOnly options"
  with assms show eq: "pushProject d options schemaPath p w =
      pushCode d options p
        (w1\<lparr>out := out w1 @
           [SpinnerFail (''Failed to update schema: '' @ message err),
            ConsoleLog ''Will continue with code changes.'']\<rparr>)"
    by (simp add: pushProject_def pushSchema_def js_defs)
  obtain r v' where run: "pushCode d options p
        (w1\<lparr>out := out w1 @
           [SpinnerFail (''Failed to update schema: '' @ message err),
            ConsoleLog ''Will continue with code changes.'']\<rparr>) = (r, v')"
    by (cases "pushCode d options p
        (w1\<lparr>out := out w1 @
           [SpinnerFail (''Failed to update schema: '' @ message err),
            ConsoleLog ''Will continue with code changes.'']\<rparr>)")
  from pushCode_run[OF run] obtain evs where
    "out v' = out w1 @
       [SpinnerFail (''Failed to update schema: '' @ message err),
        ConsoleLog ''Will continue with code changes.'',
        SpinnerText (if tokenValid d w1 then ''Using existing Git credentials...''
                     else ''Generating Git credentials...'')] @ evs"
    by (auto simp: tokenValid_def)
  with eq run show "\<exists>evs. out (snd (pushProject d options schemaPath p w)) =
       out w1 @
         [SpinnerFail (''Failed to update schema: '' @ message err),
          ConsoleLog ''Will continue with code changes.'',
          SpinnerText (if tokenValid d w1 then ''Using existing Git credentials...''
                       else ''Generating Git credentials...'')] @ evs"
    by auto
qed

text \<open>
  A command builds its own \<open>GitClient\<close>, whose \<open>tokenExpiry\<close> is \<open>null\<close>, and only
  \<open>configureWithToken\<close> ever sets it. From such a state the credential step never
  hands on to the git step: it ends with \<open>null\<close> credentials or throws, and no git
  command runs.
\<close>

lemma readFileSyncE:
  assumes "readFileSync d path w = (r, w')"
  obtains "r = e_readFile d path (ext w)"
    "w' = w\<lparr>out := out w @ [ReadFile path (thrown (e_readFile d path (ext w)))]\<rparr>"
  using assms by (auto simp: readFileSync_def)

lemma api_pushProjectUpdatesE:
  assumes "api_pushProjectUpdates d projectId schema skip w = (r, w')"
  obtains s' where "e_pushProjectUpdates d projectId schema skip (ext w) = (r, s')"
    "w' = w\<lparr>ext := s',
            out := out w @ [ApiPushProjectUpdates projectId schema skip (thrown r)]\<rparr>"
  using assms by (auto simp: api_pushProjectUpdates_def split: prod.splits)

lemma sendSchema_frame:
  assumes "sendSchema d options schemaPath p w = (r, w')"
  shows "tokenExpiry w' = tokenExpiry w \<and> git_calls (out w') = git_calls (out w)"
  using assms unfolding sendSchema_def
  by (auto elim!: js_bindE js_seqE js_liftE js_returnE emitE readFileSyncE
        api_pushProjectUpdatesE split: option.splits if_splits)

lemma getGitCredentials_fresh_client:
  assumes "tokenExpiry v = None"
    and "getGitCredentials d projectId True v = (r, v')"
  shows "git_calls (out v') = git_calls (out v) \<and>
         r \<in> Inr ` ({JNull} \<union> range js_of_git_info)"
  using assms unfolding getGitCredentials_def
  by (auto elim!: js_tryE js_seqE js_bindE emitE js_returnE api_getGitTokenE
        simp: tokenValid_def isTokenValid_def
        split: if_splits option.splits)

lemma ensureCredentials_fresh_client:
  assumes "tokenExpiry v = None"
    and "ensureCredentials d projectId v = (r, v')"
  shows "git_calls (out v') = git_calls (out v) \<and> r \<noteq> Inr True"
  using assms(2) unfolding ensureCredentials_def
  by (elim js_bindE)
     (auto dest!: getGitCredentials_fresh_client[OF assms(1)]
        elim!: js_seqE js_bindE emitE js_returnE js_liftE
        simp: js_of_git_info_def destructure3_def
        split: if_splits prod.splits)

lemma pushCode_fresh_client:
  assumes "tokenExpiry v = None"
    and "pushCode d options p v = (r, v')"
  shows "git_calls (out v') = git_calls (out v) \<and> r \<noteq> Inr (Value True)"
  using assms(2) unfolding pushCode_def
  by (elim js_bindE)
     (auto dest!: ensureCredentials_fresh_client[OF assms(1)] elim!: js_returnE
        split: if_splits)

text \<open>
  C8 (the code departs from the claim). A push whose schema step throws and that is not
  in schema-only mode reports the failure, logs that it continues and asks for
  credentials, but the code synchronization does not go through: starting, as every
  push does, with no token held, it never runs a git command and never ends with the
  result of a push; when the service issues a token it ends with the TypeError of the
  credential step. This is the defect of C5, met on the path of C8.
\<close>

theorem pushProject_schema_failure_code_sync_stops:
  assumes "schemaPath \<noteq> []" and "\<not> codeOnly options" and "\<not> schemaOnly options"
    and "tokenExpiry w = None"
    and "sendSchema d options schemaPath p
           (w\<lparr>out := out w @ [SpinnerSucceed (''Found project: '' @ p_name p),
                               SpinnerText ''Updating schema...'']\<rparr>) = (Inl err, w1)"
  shows "(\<exists>evs. out (snd (pushProject d options schemaPath p w)) =
            out w1 @
              [SpinnerFail (''Failed to update schema: '' @ message err),
               ConsoleLog ''Will continue with code changes.'',
               SpinnerText ''Generating Git credentials...''] @ evs) \<and>
         git_calls (out (snd (pushProject d options schemaPath p w))) = git_calls (out w) \<and>
         fst (pushProject d options schemaPath p w) \<noteq> Inr (Value True) \<and>
         (e_getGitToken d (p_id p) (ext w1) = (Inr \<lparr>success = True, info = Some gi\<rparr>, s') \<longrightarrow>
            pushProject d options schemaPath p w =
              (Inl (TypeError ''Cannot destructure property of undefined or null''),
               w1\<lparr>ext := s',
                  out := out w1 @
                    [SpinnerFail (''Failed to update schema: '' @ message err),
                     ConsoleLog ''Will continue with code changes.'',
                     SpinnerText ''Generating Git credentials...'',
                     ApiGetGitToken (p_id p) None]\<rparr>))"
proof -
  let ?v = "w1\<lparr>out := out w1 @
              [SpinnerFail (''Failed to update schema: '' @ message err),
               ConsoleLog ''Will continue with code changes.'']\<rparr>"
  from sendSchema_frame[OF assms(5)] assms(4)
  have te: "tokenExpiry w1 = None" and gc: "git_calls (out w1) = git_calls (out w)"
    by simp_all
  from te have tev: "tokenExpiry ?v = None" by simp
  from te have nv: "\<not> tokenValid d ?v" "\<not> tokenValid d w1"
    by (simp_all add: tokenValid_def isTokenValid_def)
  from pushProject_schema_failure[OF assms(1,2,5)] assms(3)
  have eq: "pushProject d options schemaPath p w = pushCode d options p ?v"
    and first: "\<exists>evs. out (snd (pushProject d options schemaPath p w)) =
            out w1 @
              [SpinnerFail (''Failed to update schema: '' @ message err),
               ConsoleLog ''Will continue with code changes.'',
               SpinnerText (if tokenValid d w1 then ''Using existing Git credentials...''
                            else ''Generating Git credentials...'')] @ evs"
    by blast+
  from first nv(2)
  have starts: "\<exists>evs. out (snd (pushProject d options schemaPath p w)) =
            out w1 @
              [SpinnerFail (''Failed to update schema: '' @ message err),
               ConsoleLog ''Will continue with code changes.'',
               SpinnerText ''Generating Git credentials...''] @ evs"
    by simp
  obtain r v' where run: "pushCode d options p ?v = (r, v')"
    by (cases "pushCode d options p ?v")
  from pushCode_fresh_client[OF tev run] gc
  have "git_calls (out v') = git_calls (out w)" and "r \<noteq> Inr (Value True)"
    by simp_all
  with eq run
  have calls: "git_calls (out (snd (pushProject d options schemaPath p w))) =
                 git_calls (out w)"
    and res: "fst (pushProject d options schemaPath p w) \<noteq> Inr (Value True)"
    by simp_all
  have thrown: "e_getGitToken d (p_id p) (ext w1) =
                  (Inr \<lparr>success = True, info = Some gi\<rparr>, s') \<longrightarrow>
            pushProject d options schemaPath p w =
              (Inl (TypeError ''Cannot destructure property of undefined or null''),
               w1\<lparr>ext := s',
                  out := out w1 @
                    [SpinnerFail (''Failed to update schema: '' @ message err),
                     ConsoleLog ''Will continue with code changes.'',
                     SpinnerText ''Generating Git credentials...'',
                     ApiGetGitToken (p_id p) None]\<rparr>)"
  proof
    assume tok: "e_getGitToken d (p_id p) (ext w1) =
                   (Inr \<lparr>success = True, info = Some gi\<rparr>, s')"
    then have "e_getGitToken d (p_id p) (ext ?v) =
                 (Inr \<lparr>success = True, info = Some gi\<rparr>, s')"
      by simp
    from pushCode_fresh_token_throws[OF nv(1) this, of options] eq
    show "pushProject d options schemaPath p w =
              (Inl (TypeError ''Cannot destructure property of undefined or null''),
               w1\<lparr>ext := s',
                  out := out w1 @
                    [SpinnerFail (''Failed to update schema: '' @ message err),
                     ConsoleLog ''Will continue with code changes.'',
                     SpinnerText ''Generating Git credentials...'',
                     ApiGetGitToken (p_id p) None]\<rparr>)"
      by simp
  qed
  from starts calls res thrown show ?thesis by blast
qed

definition unreadable_schema :: sim where
  "unreadable_schema = sim0\<lparr>schema_text := Inl (JsError ''ENOENT'')\<rparr>"

theorem pushProject_schema_failure_code_sync_stops_witness:
  "pushProject sim_env \<lparr>opt_message = None, schemaOnly = False, codeOnly = False\<rparr>
     ''goku_schema/app.schema.yml'' example_project (start unreadable_schema) =
     (Inl (TypeError ''Cannot destructure property of undefined or null''),
      \<lparr>ext = unreadable_schema, tokenExpiry = None,
       out =
        [SpinnerSucceed ''Found project: example'', SpinnerText ''Updating schema...'',
         ReadFile ''goku_schema/app.schema.yml'' (Some (JsError ''ENOENT'')),
         SpinnerFail ''Failed to update schema: ENOENT'',
         ConsoleLog ''Will continue with code changes.'',
         SpinnerText ''Generating Git credentials...'',
         ApiGetGitToken ''p1'' None]\<rparr>) \<and>
   pushCommand sim_env \<lparr>opt_message = None, schemaOnly = False, codeOnly = False\<rparr>
     ''/work/project-example'' ''project-example'' (start unreadable_schema) =
     (Inr Null,
      \<lparr>ext = unreadable_schema, tokenExpiry = None,
       out =
        [GitGetRemotes True None,
         SpinnerText ''Found remote: https://github.com/build-ongoku/project-example'',
         SpinnerText ''Fetching projects...'', ApiGetProjects None,
         SpinnerSucceed ''Found project: example'', SpinnerText ''Updating schema...'',
         ReadFile ''goku_schema/app.schema.yml'' (Some (JsError ''ENOENT'')),
         SpinnerFail ''Failed to update schema: ENOENT'',
         ConsoleLog ''Will continue with code changes.'',
         SpinnerText ''Generating Git credentials...'',
         ApiGetGitToken ''p1'' None,
         SpinnerFail ''Push failed'',
         ConsoleError ''Cannot destructure property of undefined or null'']\<rparr>)"
proof -
  have 1: "''goku_schema/app.schema.yml'' \<noteq> []" by simp
  have 2: "\<not> codeOnly \<lparr>opt_message = None, schemaOnly = False, codeOnly = False\<rparr>"
    and 3: "\<not> schemaOnly \<lparr>opt_message = None, schemaOnly = False, codeOnly = False\<rparr>"
    by simp_all
  have 4: "tokenExpiry (start unreadable_schema) = None" by (simp add: start_def)
  have 5: "sendSchema sim_env \<lparr>opt_message = None, schemaOnly = False, codeOnly = False\<rparr>
             ''goku_schema/app.schema.yml'' example_project
             ((start unreadable_schema)\<lparr>out := out (start unreadable_schema) @
                [SpinnerSucceed (''Found project: '' @ p_name example_project),
                 SpinnerText ''Updating schema...'']\<rparr>) =
           (Inl (JsError ''ENOENT''),
            \<lparr>ext = unreadable_schema, tokenExpiry = None,
             out =
              [SpinnerSucceed ''Found project: example'', SpinnerText ''Updating schema...'',
               ReadFile ''goku_schema/app.schema.yml'' (Some (JsError ''ENOENT''))]\<rparr>)"
    by code_simp
  have 6: "e_getGitToken sim_env (p_id example_project)
             (ext \<lparr>ext = unreadable_schema, tokenExpiry = None,
                   out =
                    [SpinnerSucceed ''Found project: example'',
                     SpinnerText ''Updating schema...'',
                     ReadFile ''goku_schema/app.schema.yml'' (Some (JsError ''ENOENT''))]\<rparr>) =
           (Inr \<lparr>success = True, info = Some example_git_info\<rparr>, unreadable_schema)"
    by (simp add: sim_env_def sim0_def unreadable_schema_def)
  have c: "pushCommand sim_env \<lparr>opt_message = None, schemaOnly = False, codeOnly = False\<rparr>
     ''/work/project-example'' ''project-example'' (start unreadable_schema) =
     (Inr Null,
      \<lparr>ext = unreadable_schema, tokenExpiry = None,
       out =
        [GitGetRemotes True None,
         SpinnerText ''Found remote: https://github.com/build-ongoku/project-example'',
         SpinnerText ''Fetching projects...'', ApiGetProjects None,
         SpinnerSucceed ''Found project: example'', SpinnerText ''Updating schema...'',
         ReadFile ''goku_schema/app.schema.yml'' (Some (JsError ''ENOENT'')),
         SpinnerFail ''Failed to update schema: ENOENT'',
         ConsoleLog ''Will continue with code changes.'',
         SpinnerText ''Generating Git credentials...'',
         ApiGetGitToken ''p1'' None,
         SpinnerFail ''Push failed'',
         ConsoleError ''Cannot destructure property of undefined or null'']\<rparr>)"
    by code_simp
  from pushProject_schema_failure_code_sync_stops[OF 1 2 3 4 5] 6
  have "pushProject sim_env \<lparr>opt_message = None, schemaOnly = False, codeOnly = False\<rparr>
     ''goku_schema/app.schema.yml'' example_project (start unreadable_schema) =
     (Inl (TypeError ''Cannot destructure property of undefined or null''),
      \<lparr>ext = unreadable_schema, tokenExpiry = None,
       out =
        [SpinnerSucceed ''Found project: example'', SpinnerText ''Updating schema...'',
         ReadFile ''goku_schema/app.schema.yml'' (Some (JsError ''ENOENT'')),
         SpinnerFail ''Failed to update schema: ENOENT'',
         ConsoleLog ''Will continue with code changes.'',
         SpinnerText ''Generating Git credentials...'',
         ApiGetGitToken ''p1'' None]\<rparr>)"
    by (simp add: example_project_def)
  with c show ?thesis by simp
qed

end
